theory Spec2Isabelle
  imports Main "HOL-Library.Word" "HOL-Library.Char_ord" "HOL-Library.List_Lexorder"
begin

unbundle bit_operations_syntax

section \<open>Go values shared by the package\<close>

text \<open>
  A Go \<open>error\<close> value is either the package's own \<open>*InvalidNonce\<close> or any other error,
  of which the package only ever reads the message (\<open>err.Error()\<close>).
\<close>

datatype error = InvalidNonce | Error string

fun Error_msg :: "error \<Rightarrow> string" where
  "Error_msg InvalidNonce = ''invalid nonce''"
| "Error_msg (Error m) = m"

text \<open>
  A call that does not return: \<open>log.Fatal\<close> ends the process, a panic unwinds the
  goroutine. Every stateful operation returns \<open>Inl\<close> of one of these, or \<open>Inr\<close> of its
  result and the state it leaves; the state a crashed call leaves behind is not modelled.
\<close>

datatype crash = Fatal string | Panic string

type_synonym byte = "8 word"

text \<open>\<open>time.Time\<close> and \<open>time.Duration\<close> in nanoseconds; the zero \<open>Time\<close> is 0.\<close>

type_synonym Time = int
type_synonym Duration = int

definition Second :: Duration where
  "Second = 1000000000"

definition Minute :: Duration where
  "Minute = 60 * Second"

text \<open>The value an \<open>int64\<close> computation leaves when its exact result is \<open>x\<close>.\<close>

definition int64 :: "int \<Rightarrow> int" where
  "int64 x = (x + 2 ^ 63) mod 2 ^ 64 - 2 ^ 63"

subsection \<open>Types of the libraries the package calls\<close>

record Userinfo =
  username :: string
  password :: string
  passwordSet :: bool

record URL =
  Scheme :: string
  Opaque :: string
  User :: "Userinfo option"
  Host :: string
  Path :: string
  RawPath :: string
  ForceQuery :: bool
  RawQuery :: string
  Fragment :: string
  RawFragment :: string

record Response =
  Status :: string
  StatusCode :: int
  Header :: "string \<rightharpoonup> string list"
  Body :: string

text \<open>\<open>Header.Get\<close>: the first value stored under the key, or the empty string.\<close>

definition Header_Get :: "(string \<rightharpoonup> string list) \<Rightarrow> string \<Rightarrow> string" where
  "Header_Get h key = (case h key of None \<Rightarrow> [] | Some [] \<Rightarrow> [] | Some (v # _) \<Rightarrow> v)"

text \<open>A claim of a parsed token, as \<open>encoding/json\<close> leaves it in an \<open>interface{}\<close>;
  a number is a \<open>float64\<close>, kept by its bits.\<close>

datatype json_value =
    JNull
  | JBool bool
  | JNumber "64 word"
  | JString string
  | JArray "json_value list"
  | JObject "(string \<times> json_value) list"

text \<open>\<open>token.Get\<close>: the claim of that name, if the token has one.\<close>

type_synonym Token = "string \<rightharpoonup> json_value"

section \<open>Utilities: the discovery document, \<open>GenerateNonce\<close>, \<open>isOrigin\<close>, \<open>originOf\<close>\<close>

record discoveryDoc =
  JWKsURI :: string
  AuthorizationEndpoint :: string

text \<open>
  What a \<open>data interface{}\<close> of \<open>Store.Fetch\<close> points to: the client fetches a
  \<open>*discoveryDoc\<close> and a \<open>jwk.Set\<close> (of a type \<open>'k\<close> left open).
\<close>

datatype 'k payload = DiscoveryDoc discoveryDoc | KeySet 'k

fun same_type :: "'k payload \<Rightarrow> 'k payload \<Rightarrow> bool" where
  "same_type (DiscoveryDoc _) (DiscoveryDoc _) = True"
| "same_type (KeySet _) (KeySet _) = True"
| "same_type _ _ = False"

text \<open>
  The outside of the package: the HTTP client, the clock and the random source (each
  answering by the number of calls made before), and the library functions the package
  calls, each given by what it returns.
\<close>

record 'k env =
  http_Get :: "nat \<Rightarrow> string \<Rightarrow> error + Response"
  time_Now :: "nat \<Rightarrow> Time"
  rand_Read :: "nat \<Rightarrow> error + byte list"
  json_Decode_discoveryDoc :: "string \<Rightarrow> discoveryDoc \<Rightarrow> error option \<times> discoveryDoc"
  json_Decode_Set :: "string \<Rightarrow> 'k \<Rightarrow> error option \<times> 'k"
  jwk_NewSet :: 'k
  url_Parse :: "string \<Rightarrow> error + URL"
  url_String :: "URL \<Rightarrow> string"
  jwt_Parse :: "string \<Rightarrow> 'k \<Rightarrow> Duration \<Rightarrow> string \<Rightarrow> string \<Rightarrow> error + Token"

text \<open>
  What changes as the package runs, outside its own memory: the GET requests sent so far
  (latest first), and how many times the clock and the random source have been read.
\<close>

record world =
  requests :: "string list"
  clock_reads :: nat
  rand_reads :: nat

definition Now :: "'k env \<Rightarrow> world \<Rightarrow> Time \<times> world" where
  "Now env w = (time_Now env (clock_reads w), w\<lparr>clock_reads := Suc (clock_reads w)\<rparr>)"

text \<open>\<open>encoding/hex\<close>: two digits of \<open>"0123456789abcdef"\<close> for each byte, high nibble first.\<close>

definition hextable :: string where
  "hextable = ''0123456789abcdef''"

definition hex_byte :: "byte \<Rightarrow> string" where
  "hex_byte b = [hextable ! unat (drop_bit 4 b), hextable ! unat (b AND 0x0f)]"

definition hex_EncodeToString :: "byte list \<Rightarrow> string" where
  "hex_EncodeToString buf = concat (map hex_byte buf)"

text \<open>
  \<open>GenerateNonce\<close>: \<open>buf\<close> is sixteen zero bytes; \<open>rand.Read\<close> either fails, which is
  \<open>log.Fatal\<close>, or writes its bytes over \<open>buf\<close>.
\<close>

definition GenerateNonce :: "'k env \<Rightarrow> world \<Rightarrow> crash + (string \<times> world)" where
  "GenerateNonce env w =
     (let buf = replicate 16 (0 :: byte) in
      case rand_Read env (rand_reads w) of
        Inl e \<Rightarrow> Inl (Fatal (''nonce generator error:'' @ Error_msg e))
      | Inr bs \<Rightarrow>
          Inr (hex_EncodeToString (take 16 (bs @ drop (length bs) buf)),
               w\<lparr>rand_reads := Suc (rand_reads w)\<rparr>))"

definition isOrigin :: "URL \<Rightarrow> bool" where
  "isOrigin url \<longleftrightarrow>
     Scheme url \<noteq> [] \<and> User url = None \<and> Path url = [] \<and> RawPath url = [] \<and>
     ForceQuery url = False \<and> RawQuery url = [] \<and> Fragment url = [] \<and> RawFragment url = []"

definition originOf :: "URL \<Rightarrow> string" where
  "originOf url =
     (if Opaque url \<noteq> [] then Scheme url @ '':'' @ Opaque url
      else Scheme url @ ''://'' @ Host url)"

text \<open>\<open>URL.IsAbs\<close>: the scheme is not empty.\<close>

definition IsAbs :: "URL \<Rightarrow> bool" where
  "IsAbs url \<longleftrightarrow> Scheme url \<noteq> []"

section \<open>\<open>SimpleFetch\<close>\<close>

definition defaultMaxAge :: Duration where
  "defaultMaxAge = Minute"

definition defaultErrMaxAge :: Duration where
  "defaultErrMaxAge = 3 * Second"

text \<open>
  \<open>maxAgeRe = max-age\s*=\s*(\d+)\<close>. \<open>\s\<close> is one of tab, newline, form feed, carriage
  return and space; \<open>\d\<close> an ASCII digit.
\<close>

definition is_space :: "char \<Rightarrow> bool" where
  "is_space c \<longleftrightarrow> of_char c \<in> {9 :: nat, 10, 12, 13, 32}"

definition is_digit :: "char \<Rightarrow> bool" where
  "is_digit c \<longleftrightarrow> (48 :: nat) \<le> of_char c \<and> of_char c \<le> (57 :: nat)"

fun strip_prefix :: "string \<Rightarrow> string \<Rightarrow> string option" where
  "strip_prefix [] s = Some s"
| "strip_prefix (p # ps) [] = None"
| "strip_prefix (p # ps) (c # cs) = (if p = c then strip_prefix ps cs else None)"

text \<open>A match of the expression starting at the head of the string: its group 1.\<close>

definition maxAgeRe_at :: "string \<Rightarrow> string option" where
  "maxAgeRe_at s =
     (case strip_prefix ''max-age'' s of
        None \<Rightarrow> None
      | Some r \<Rightarrow>
          (case dropWhile is_space r of
             [] \<Rightarrow> None
           | c # r' \<Rightarrow>
               if c = CHR ''='' then
                 (let ds = takeWhile is_digit (dropWhile is_space r') in
                  if ds = [] then None else Some ds)
               else None))"

text \<open>\<open>maxAgeRe.FindStringSubmatch(s)\<close>: \<open>match[1]\<close> of the leftmost match, or no match.\<close>

fun maxAgeRe_FindStringSubmatch :: "string \<Rightarrow> string option" where
  "maxAgeRe_FindStringSubmatch [] = maxAgeRe_at []"
| "maxAgeRe_FindStringSubmatch (c # cs) =
     (case maxAgeRe_at (c # cs) of
        Some ds \<Rightarrow> Some ds
      | None \<Rightarrow> maxAgeRe_FindStringSubmatch cs)"

text \<open>\<open>strconv.ParseInt(s, 10, 64)\<close>: an optional sign, then decimal digits only; a value
  outside \<open>int64\<close> is a range error. The messages quote \<open>s\<close> (written here as it is
  quoted when it needs no escaping); \<open>SimpleFetch\<close> does not read them.\<close>

definition quoted :: "string \<Rightarrow> string" where
  "quoted s = [CHR 0x22] @ s @ [CHR 0x22]"

definition digits_value :: "string \<Rightarrow> int" where
  "digits_value ds = foldl (\<lambda>acc c. acc * 10 + (int (of_char c) - 48)) 0 ds"

definition ParseInt :: "string \<Rightarrow> error + int" where
  "ParseInt s =
     (let neg = (s \<noteq> [] \<and> hd s = CHR ''-'');
          ds = (if s \<noteq> [] \<and> (hd s = CHR ''+'' \<or> hd s = CHR ''-'') then tl s else s) in
      if ds = [] \<or> \<not> list_all is_digit ds then
        Inl (Error (''strconv.ParseInt: parsing '' @ quoted s @ '': invalid syntax''))
      else
        (let v = (if neg then - digits_value ds else digits_value ds) in
         if v < - (2 ^ 63) \<or> 2 ^ 63 - 1 < v then
           Inl (Error (''strconv.ParseInt: parsing '' @ quoted s @ '': value out of range''))
         else Inr v))"

text \<open>\<open>json.NewDecoder(res.Body).Decode(data)\<close> decodes into what \<open>data\<close> points to.\<close>

definition json_Decode :: "'k env \<Rightarrow> string \<Rightarrow> 'k payload \<Rightarrow> error option \<times> 'k payload" where
  "json_Decode env body dat =
     (case dat of
        DiscoveryDoc d \<Rightarrow>
          (case json_Decode_discoveryDoc env body d of (e, d') \<Rightarrow> (e, DiscoveryDoc d'))
      | KeySet k \<Rightarrow>
          (case json_Decode_Set env body k of (e, k') \<Rightarrow> (e, KeySet k')))"

text \<open>
  \<open>SimpleFetch\<close> returns the lifetime and the error, and leaves the decoded document in
  what \<open>data\<close> points to (the third component).
\<close>

definition SimpleFetch ::
  "'k env \<Rightarrow> string \<Rightarrow> 'k payload \<Rightarrow> world \<Rightarrow> (Duration \<times> error option \<times> 'k payload) \<times> world" where
  "SimpleFetch env url dat w =
     (let maxAge = defaultErrMaxAge;
          w' = w\<lparr>requests := url # requests w\<rparr> in
      case http_Get env (length (requests w)) url of
        Inl e \<Rightarrow> ((maxAge, Some e, dat), w')
      | Inr res \<Rightarrow>
          if StatusCode res \<noteq> 200 then
            ((maxAge, Some (Error (''unexpected HTTP status: '' @ Status res)), dat), w')
          else
            (case json_Decode env (Body res) dat of
               (Some e, dat') \<Rightarrow> ((maxAge, Some e, dat'), w')
             | (None, dat') \<Rightarrow>
                 (let maxAge = defaultMaxAge;
                      maxAge =
                        (case maxAgeRe_FindStringSubmatch (Header_Get (Header res) ''Cache-Control'') of
                           None \<Rightarrow> maxAge
                         | Some m1 \<Rightarrow>
                             (case ParseInt m1 of
                                Inl _ \<Rightarrow> maxAge
                              | Inr maxAgeInt \<Rightarrow>
                                  (let maxAgeParsed = int64 (maxAgeInt * Second) in
                                   if maxAgeParsed > maxAge then maxAgeParsed else maxAge)))
                  in ((maxAge, None, dat'), w'))))"

section \<open>The \<open>Store\<close> interface and the in-memory store\<close>

text \<open>The \<open>Store\<close> interface, over the state \<open>'s\<close> its implementation keeps.\<close>

record ('s, 'k) Store =
  Fetch :: "string \<Rightarrow> 'k payload \<Rightarrow> 's \<Rightarrow> crash + ((error + 'k payload) \<times> 's)"
  NewNonce :: "string \<Rightarrow> 's \<Rightarrow> crash + ((error + string) \<times> 's)"
  ConsumeNonce :: "string \<Rightarrow> string \<Rightarrow> 's \<Rightarrow> crash + (error option \<times> 's)"

record 'k cacheEntry =
  data :: "'k payload option"
  err :: "error option"
  expires :: Time

record 'k memoryStore =
  cache :: "string \<rightharpoonup> 'k cacheEntry"
  nonces :: "string set"

definition getCacheEntry :: "'k memoryStore \<Rightarrow> string \<Rightarrow> 'k cacheEntry \<times> 'k memoryStore" where
  "getCacheEntry st url =
     (case cache st url of
        Some entry \<Rightarrow> (entry, st)
      | None \<Rightarrow>
          (let entry = \<lparr>data = None, err = None, expires = 0\<rparr>
           in (entry, st\<lparr>cache := (cache st)(url \<mapsto> entry)\<rparr>)))"

text \<open>
  \<open>Fetch\<close>. The entry is a pointer held by the map, so what is assigned to the entry is
  written back under \<open>url\<close>. \<open>reflect.Value.Set\<close> panics when the entry holds nothing, or
  a document of another type than the caller's.
\<close>

definition memoryStore_Fetch ::
  "'k env \<Rightarrow> string \<Rightarrow> 'k payload \<Rightarrow> 'k memoryStore \<times> world
     \<Rightarrow> crash + ((error + 'k payload) \<times> ('k memoryStore \<times> world))" where
  "memoryStore_Fetch env url dat \<sigma> =
     (case \<sigma> of (st, w) \<Rightarrow>
      (case getCacheEntry st url of (entry, st) \<Rightarrow>
       (case Now env w of (now, w) \<Rightarrow>
        (case (if \<not> now < expires entry then
                 (case SimpleFetch env url dat w of ((maxAge, e, dat'), w) \<Rightarrow>
                  (case Now env w of (now', w) \<Rightarrow>
                     (\<lparr>data = Some dat', err = e, expires = now' + maxAge\<rparr>, w)))
               else (entry, w)) of (entry, w) \<Rightarrow>
         (let st = st\<lparr>cache := (cache st)(url \<mapsto> entry)\<rparr> in
          case err entry of
            Some e \<Rightarrow> Inr (Inl e, (st, w))
          | None \<Rightarrow>
              (case data entry of
                 None \<Rightarrow> Inl (Panic ''reflect: call of reflect.Value.Set on zero Value'')
               | Some ptr \<Rightarrow>
                   if same_type ptr dat then Inr (Inr ptr, (st, w))
                   else Inl (Panic ''reflect.Set: value is not assignable'')))))))"

text \<open>\<open>fmt.Sprintf("%s:%s", nonce, email)\<close>, the key of the \<open>nonces\<close> map.\<close>

definition pair_key :: "string \<Rightarrow> string \<Rightarrow> string" where
  "pair_key nonce email = nonce @ '':'' @ email"

definition memoryStore_NewNonce ::
  "'k env \<Rightarrow> string \<Rightarrow> 'k memoryStore \<times> world
     \<Rightarrow> crash + ((error + string) \<times> ('k memoryStore \<times> world))" where
  "memoryStore_NewNonce env email \<sigma> =
     (case \<sigma> of (st, w) \<Rightarrow>
        (case GenerateNonce env w of
           Inl c \<Rightarrow> Inl c
         | Inr (nonce, w) \<Rightarrow>
             (let pair = pair_key nonce email
              in Inr (Inr nonce, (st\<lparr>nonces := insert pair (nonces st)\<rparr>, w)))))"

definition memoryStore_ConsumeNonce ::
  "string \<Rightarrow> string \<Rightarrow> 'k memoryStore \<times> world
     \<Rightarrow> crash + (error option \<times> ('k memoryStore \<times> world))" where
  "memoryStore_ConsumeNonce nonce email \<sigma> =
     (case \<sigma> of (st, w) \<Rightarrow>
        (let pair = pair_key nonce email in
         if pair \<notin> nonces st then Inr (Some InvalidNonce, (st, w))
         else Inr (None, (st\<lparr>nonces := nonces st - {pair}\<rparr>, w))))"

text \<open>
  \<open>NewMemoryStore\<close>: the methods of the store it creates (its HTTP client is the one of
  \<open>env\<close>), and the store's fields as it creates them.
\<close>

definition NewMemoryStore :: "'k env \<Rightarrow> ('k memoryStore \<times> world, 'k) Store" where
  "NewMemoryStore env =
     \<lparr>Fetch = memoryStore_Fetch env,
      NewNonce = memoryStore_NewNonce env,
      ConsumeNonce = memoryStore_ConsumeNonce\<rparr>"

definition NewMemoryStore_fields :: "'k memoryStore" where
  "NewMemoryStore_fields = \<lparr>cache = Map.empty, nonces = {}\<rparr>"

section \<open>The client: \<open>NewClient\<close>, \<open>StartAuth\<close>, \<open>Verify\<close>\<close>

definition ResponseModeFormPost :: string where
  "ResponseModeFormPost = ''form_post''"

definition ResponseModeFragment :: string where
  "ResponseModeFragment = ''fragment''"

definition DefaultBroker :: string where
  "DefaultBroker = ''https://broker.portier.io''"

definition DefaultResponseMode :: string where
  "DefaultResponseMode = ResponseModeFormPost"

definition DefaultLeeway :: Duration where
  "DefaultLeeway = 3 * Minute"

definition DefaultHTTPTimeout :: Duration where
  "DefaultHTTPTimeout = 10 * Second"

definition discoveryPath :: string where
  "discoveryPath = ''/.well-known/openid-configuration''"

record ('s, 'k) Config =
  Store :: "('s, 'k) Store option"
  Broker :: string
  RedirectURI :: string
  ResponseMode :: string
  Leeway :: Duration

record ('s, 'k) client =
  store :: "('s, 'k) Store"
  broker :: string
  brokerURL :: URL
  redirectURI :: string
  clientID :: string
  responseMode :: string
  leeway :: Duration

text \<open>
  \<open>NewClient\<close>. \<open>mem\<close> is the store that \<open>NewMemoryStore\<close> creates when the
  configuration names none.
\<close>

definition NewClient ::
  "'k env \<Rightarrow> ('s, 'k) Store \<Rightarrow> ('s, 'k) Config \<Rightarrow> error + ('s, 'k) client" where
  "NewClient env mem cfg =
     (let store' = (case Store cfg of None \<Rightarrow> mem | Some s \<Rightarrow> s);
          broker' = (if Broker cfg = [] then DefaultBroker else Broker cfg);
          responseMode' = (if ResponseMode cfg = [] then ResponseModeFormPost else ResponseMode cfg);
          leeway' = (if Leeway cfg = 0 then DefaultLeeway else Leeway cfg);
          redirectURI' = RedirectURI cfg in
      if redirectURI' = [] then Inl (Error ''RedirectURI not set'')
      else if responseMode' \<noteq> ResponseModeFormPost \<and> responseMode' \<noteq> ResponseModeFragment then
        Inl (Error (''invalid ResponseMode: '' @ responseMode'))
      else
        (case url_Parse env broker' of
           Inl e \<Rightarrow> Inl (Error (''invalid broker: '' @ Error_msg e))
         | Inr brokerURL' \<Rightarrow>
             if \<not> isOrigin brokerURL' then
               Inl (Error ''invalid broker: URL is not an HTTP(S) origin'')
             else
               (case url_Parse env redirectURI' of
                  Inl e \<Rightarrow> Inl (Error (''invalid redirect URI: '' @ Error_msg e))
                | Inr redirectURL \<Rightarrow>
                    if \<not> IsAbs redirectURL then
                      Inl (Error ''invalid redirect URI: must be absolute'')
                    else
                      Inr \<lparr>store = store', broker = broker', brokerURL = brokerURL',
                           redirectURI = redirectURI', clientID = originOf redirectURL,
                           responseMode = responseMode', leeway = leeway'\<rparr>)))"

definition fetchDiscovery ::
  "'k env \<Rightarrow> ('s, 'k) client \<Rightarrow> 's \<Rightarrow> crash + ((error + discoveryDoc) \<times> 's)" where
  "fetchDiscovery env c \<sigma> =
     (let discovery = \<lparr>JWKsURI = [], AuthorizationEndpoint = []\<rparr>;
          discoveryURL = (brokerURL c)\<lparr>Path := discoveryPath\<rparr> in
      case Fetch (store c) (url_String env discoveryURL) (DiscoveryDoc discovery) \<sigma> of
        Inl cr \<Rightarrow> Inl cr
      | Inr (Inl e, \<sigma>) \<Rightarrow>
          Inr (Inl (Error (''could not fetch discovery document: '' @ Error_msg e)), \<sigma>)
      | Inr (Inr (DiscoveryDoc discovery), \<sigma>) \<Rightarrow> Inr (Inr discovery, \<sigma>)
      | Inr (Inr (KeySet _), \<sigma>) \<Rightarrow> Inl (Panic ''reflect.Set: value is not assignable''))"

subsection \<open>\<open>url.Values\<close>\<close>

text \<open>
  A \<open>url.Values\<close> by its keys, each with its values. \<open>Set\<close> replaces the values of a
  key; \<open>Encode\<close> writes \<open>key=value\<close> for the keys in sorted order, joined with \<open>&\<close>,
  escaping both as \<open>QueryEscape\<close> does: letters, digits and \<open>-_.~\<close> stay, a space becomes
  \<open>+\<close>, any other byte \<open>%XX\<close>.
\<close>

type_synonym Values = "(string \<times> string list) list"

fun Values_Set :: "string \<Rightarrow> string \<Rightarrow> Values \<Rightarrow> Values" where
  "Values_Set key v [] = [(key, [v])]"
| "Values_Set key v ((k, vs) # q) =
     (if k = key then (key, [v]) # q else (k, vs) # Values_Set key v q)"

definition shouldEscape :: "char \<Rightarrow> bool" where
  "shouldEscape c \<longleftrightarrow>
     (let n = (of_char c :: nat) in
      \<not> ((97 \<le> n \<and> n \<le> 122) \<or> (65 \<le> n \<and> n \<le> 90) \<or> (48 \<le> n \<and> n \<le> 57) \<or>
         c = CHR ''-'' \<or> c = CHR ''_'' \<or> c = CHR ''.'' \<or> c = CHR ''~''))"

definition upperhex :: string where
  "upperhex = ''0123456789ABCDEF''"

definition escape_char :: "char \<Rightarrow> string" where
  "escape_char c =
     (if shouldEscape c then
        (if c = CHR '' '' then ''+''
         else [CHR ''%'', upperhex ! (of_char c div 16), upperhex ! (of_char c mod 16)])
      else [c])"

definition QueryEscape :: "string \<Rightarrow> string" where
  "QueryEscape s = concat (map escape_char s)"

fun join_amp :: "string list \<Rightarrow> string" where
  "join_amp [] = []"
| "join_amp [x] = x"
| "join_amp (x # y # ys) = x @ ''&'' @ join_amp (y # ys)"

definition Values_Encode :: "Values \<Rightarrow> string" where
  "Values_Encode q =
     join_amp (concat (map (\<lambda>k. map (\<lambda>v. QueryEscape k @ ''='' @ QueryEscape v)
                                      (case map_of q k of None \<Rightarrow> [] | Some vs \<Rightarrow> vs))
                           (sort (map fst q))))"

subsection \<open>\<open>StartAuth\<close> and \<open>Verify\<close>\<close>

definition StartAuth_query :: "('s, 'k) client \<Rightarrow> string \<Rightarrow> string \<Rightarrow> Values" where
  "StartAuth_query c email nonce =
     (Values_Set ''redirect_uri'' (redirectURI c)
      (Values_Set ''client_id'' (clientID c)
       (Values_Set ''response_mode'' (responseMode c)
        (Values_Set ''response_type'' ''id_token''
         (Values_Set ''nonce'' nonce
          (Values_Set ''scope'' ''openid email''
           (Values_Set ''login_hint'' email [])))))))"

definition StartAuth ::
  "'k env \<Rightarrow> ('s, 'k) client \<Rightarrow> string \<Rightarrow> 's \<Rightarrow> crash + ((error + string) \<times> 's)" where
  "StartAuth env c email \<sigma> =
     (case fetchDiscovery env c \<sigma> of
        Inl cr \<Rightarrow> Inl cr
      | Inr (Inl e, \<sigma>) \<Rightarrow> Inr (Inl e, \<sigma>)
      | Inr (Inr discovery, \<sigma>) \<Rightarrow>
          (case url_Parse env (AuthorizationEndpoint discovery) of
             Inl e \<Rightarrow> Inr (Inl (Error (''invalid authorization_endpoint: '' @ Error_msg e)), \<sigma>)
           | Inr authURL \<Rightarrow>
               (case NewNonce (store c) email \<sigma> of
                  Inl cr \<Rightarrow> Inl cr
                | Inr (Inl e, \<sigma>) \<Rightarrow> Inr (Inl (Error (''NewNonce error: '' @ Error_msg e)), \<sigma>)
                | Inr (Inr nonce, \<sigma>) \<Rightarrow>
                    (let q = StartAuth_query c email nonce;
                         authURL = authURL\<lparr>RawQuery := Values_Encode q\<rparr>
                     in Inr (Inr (url_String env authURL), \<sigma>)))))"

text \<open>\<open>v, _ := token.Get(name); s, _ := v.(string)\<close>: the claim when it is a string, the
  empty string when it is absent or of another type.\<close>

fun string_claim :: "json_value option \<Rightarrow> string" where
  "string_claim (Some (JString s)) = s"
| "string_claim _ = []"

definition Verify ::
  "'k env \<Rightarrow> ('s, 'k) client \<Rightarrow> string \<Rightarrow> 's \<Rightarrow> crash + ((error + string) \<times> 's)" where
  "Verify env c tokenStr \<sigma> =
     (case fetchDiscovery env c \<sigma> of
        Inl cr \<Rightarrow> Inl cr
      | Inr (Inl e, \<sigma>) \<Rightarrow> Inr (Inl e, \<sigma>)
      | Inr (Inr discovery, \<sigma>) \<Rightarrow>
          (case Fetch (store c) (JWKsURI discovery) (KeySet (jwk_NewSet env)) \<sigma> of
             Inl cr \<Rightarrow> Inl cr
           | Inr (Inl e, \<sigma>) \<Rightarrow> Inr (Inl (Error (''FetchKeys error: '' @ Error_msg e)), \<sigma>)
           | Inr (Inr (DiscoveryDoc _), \<sigma>) \<Rightarrow> Inl (Panic ''reflect.Set: value is not assignable'')
           | Inr (Inr (KeySet keySet), \<sigma>) \<Rightarrow>
               (case jwt_Parse env tokenStr keySet (leeway c) (broker c) (clientID c) of
                  Inl e \<Rightarrow> Inr (Inl (Error (''jwt.Parse error: '' @ Error_msg e)), \<sigma>)
                | Inr token \<Rightarrow>
                    (let nonce = string_claim (token ''nonce'') in
                     if nonce = [] then Inr (Inl (Error ''nonce claim missing''), \<sigma>)
                     else
                       (let email = string_claim (token ''email'') in
                        if email = [] then Inr (Inl (Error ''email claim missing''), \<sigma>)
                        else
                          (let emailOrig = string_claim (token ''email_original'');
                               emailOrig = (if emailOrig = [] then email else emailOrig) in
                           case ConsumeNonce (store c) nonce emailOrig \<sigma> of
                             Inl cr \<Rightarrow> Inl cr
                           | Inr (Some InvalidNonce, \<sigma>) \<Rightarrow> Inr (Inl (Error ''invalid session''), \<sigma>)
                           | Inr (Some e, \<sigma>) \<Rightarrow>
                               Inr (Inl (Error (''ConsumeNonce error: '' @ Error_msg e)), \<sigma>)
                           | Inr (None, \<sigma>) \<Rightarrow> Inr (Inr email, \<sigma>)))))))"

section \<open>Runs of the in-memory store\<close>

text \<open>
  A run of \<open>NewNonce\<close> and \<open>ConsumeNonce\<close> calls on the store, recording beside the state
  the pairs (nonce, email) that \<open>NewNonce\<close> has issued. A call that crashes ends the run.
\<close>

datatype store_op = CallNewNonce string | CallConsumeNonce string string

fun run_op ::
  "'k env \<Rightarrow> store_op \<Rightarrow> ('k memoryStore \<times> world) \<times> (string \<times> string) set
     \<Rightarrow> (('k memoryStore \<times> world) \<times> (string \<times> string) set) option" where
  "run_op env (CallNewNonce email) (\<sigma>, issued) =
     (case memoryStore_NewNonce env email \<sigma> of
        Inr (Inr nonce, \<sigma>') \<Rightarrow> Some (\<sigma>', insert (nonce, email) issued)
      | _ \<Rightarrow> None)"
| "run_op env (CallConsumeNonce nonce email) (\<sigma>, issued) =
     (case memoryStore_ConsumeNonce nonce email \<sigma> of
        Inr (_, \<sigma>') \<Rightarrow> Some (\<sigma>', issued)
      | Inl _ \<Rightarrow> None)"

fun run_ops ::
  "'k env \<Rightarrow> store_op list \<Rightarrow> ('k memoryStore \<times> world) \<times> (string \<times> string) set
     \<Rightarrow> (('k memoryStore \<times> world) \<times> (string \<times> string) set) option" where
  "run_ops env [] s = Some s"
| "run_ops env (x # xs) s =
     (case run_op env x s of None \<Rightarrow> None | Some s' \<Rightarrow> run_ops env xs s')"

text \<open>
  In every state of a run, each stored key is the key of an issued pair, and no issued
  nonce holds a colon.
\<close>

definition run_inv :: "('k memoryStore \<times> world) \<times> (string \<times> string) set \<Rightarrow> bool" where
  "run_inv s \<longleftrightarrow>
     (\<forall>k \<in> nonces (fst (fst s)). \<exists>(n, e) \<in> snd s. k = pair_key n e) \<and>
     (\<forall>(n, e) \<in> snd s. CHR '':'' \<notin> set n)"

section \<open>Notions the properties are stated with\<close>

text \<open>
  The \<open>max-age\<close> of a response, in seconds, as \<open>SimpleFetch\<close> reads it: group 1 of the
  first match of \<open>maxAgeRe\<close> in the \<open>Cache-Control\<close> header, when \<open>ParseInt\<close> accepts it.
\<close>

definition header_max_age :: "Response \<Rightarrow> int option" where
  "header_max_age res =
     (case maxAgeRe_FindStringSubmatch (Header_Get (Header res) ''Cache-Control'') of
        None \<Rightarrow> None
      | Some m1 \<Rightarrow> (case ParseInt m1 of Inl _ \<Rightarrow> None | Inr v \<Rightarrow> Some v))"

text \<open>A claim that is present but is not a JSON string.\<close>

fun not_a_string :: "json_value \<Rightarrow> bool" where
  "not_a_string (JString _) = False"
| "not_a_string _ = True"

section \<open>An example broker and application\<close>

text \<open>
  The broker \<open>https://idp.example\<close> and the application \<open>https://app.example\<close>, used to
  run the definitions on concrete inputs. Documents stand for their JSON text, a key set
  is a name, and the clock advances one second at each reading.
\<close>

definition example_discovery :: discoveryDoc where
  "example_discovery =
     \<lparr>JWKsURI = ''https://idp.example/keys'',
      AuthorizationEndpoint = ''https://idp.example/auth''\<rparr>"

definition example_URL :: "string \<Rightarrow> string \<Rightarrow> string \<Rightarrow> string \<Rightarrow> URL" where
  "example_URL scheme opaque host path =
     \<lparr>Scheme = scheme, Opaque = opaque, User = None, Host = host, Path = path,
      RawPath = [], ForceQuery = False, RawQuery = [], Fragment = [], RawFragment = []\<rparr>"

definition example_url_Parse :: "string \<Rightarrow> error + URL" where
  "example_url_Parse s =
     (if s = ''https://idp.example'' then Inr (example_URL ''https'' [] ''idp.example'' [])
      else if s = ''https://idp.example/auth'' then
        Inr (example_URL ''https'' [] ''idp.example'' ''/auth'')
      else if s = ''https://app.example/callback/path'' then
        Inr (example_URL ''https'' [] ''app.example'' ''/callback/path'')
      else if s = ''mailto:user@example.com'' then
        Inr (example_URL ''mailto'' ''user@example.com'' [] [])
      else Inl (Error ''parse: invalid URI''))"

definition example_url_String :: "URL \<Rightarrow> string" where
  "example_url_String u =
     (if Opaque u \<noteq> [] then Scheme u @ '':'' @ Opaque u
      else Scheme u @ ''://'' @ Host u @ Path u) @
     (if RawQuery u = [] then [] else ''?'' @ RawQuery u)"

definition example_Response :: "int \<Rightarrow> string \<Rightarrow> string \<Rightarrow> string \<Rightarrow> Response" where
  "example_Response code status cache_control body =
     \<lparr>Status = status, StatusCode = code,
      Header = (if cache_control = [] then Map.empty
                else [''Cache-Control'' \<mapsto> [cache_control]]),
      Body = body\<rparr>"

definition example_http_Get :: "string \<Rightarrow> nat \<Rightarrow> string \<Rightarrow> error + Response" where
  "example_http_Get cache_control n url =
     (if url = ''https://idp.example/.well-known/openid-configuration'' then
        Inr (example_Response 200 ''200 OK'' cache_control ''discovery'')
      else if url = ''https://idp.example/keys'' then
        Inr (example_Response 200 ''200 OK'' [] ''keys'')
      else if url = ''https://idp.example/empty'' then
        Inr (example_Response 204 ''204 No Content'' [] ''discovery'')
      else if url = ''https://idp.example/missing'' then
        Inr (example_Response 404 ''404 Not Found'' [] ''discovery'')
      else Inl (Error ''Get: no such host''))"

definition example_nonce :: string where
  "example_nonce = ''abababababababababababababababab''"

definition example_jwt_Parse ::
  "string \<Rightarrow> string \<Rightarrow> Duration \<Rightarrow> string \<Rightarrow> string \<Rightarrow> error + Token" where
  "example_jwt_Parse tokenStr keySet skew issuer audience =
     (if keySet = ''key-1'' \<and> issuer = ''https://idp.example'' \<and>
         audience = ''https://app.example'' then
        (if tokenStr = ''token-plain'' then
           Inr [''nonce'' \<mapsto> JString example_nonce, ''email'' \<mapsto> JString ''user@x.com'']
         else if tokenStr = ''token-original'' then
           Inr [''nonce'' \<mapsto> JString example_nonce, ''email'' \<mapsto> JString ''user@x.com'',
                ''email_original'' \<mapsto> JString ''User@X.com'']
         else if tokenStr = ''token-no-nonce'' then
           Inr [''email'' \<mapsto> JString ''user@x.com'']
         else if tokenStr = ''token-number-nonce'' then
           Inr [''nonce'' \<mapsto> JNumber 7, ''email'' \<mapsto> JString ''user@x.com'']
         else Inl (Error ''invalid JWT''))
      else Inl (Error ''could not verify message''))"

definition example_env :: "string \<Rightarrow> string env" where
  "example_env cache_control =
     \<lparr>http_Get = example_http_Get cache_control,
      time_Now = (\<lambda>n. (int n + 1) * Second),
      rand_Read = (\<lambda>n. Inr (replicate 16 (0xab :: byte))),
      json_Decode_discoveryDoc =
        (\<lambda>body d. if body = ''discovery'' then (None, example_discovery)
                   else (Some (Error ''invalid character''), d)),
      json_Decode_Set =
        (\<lambda>body k. if body = ''keys'' then (None, ''key-1'')
                   else (Some (Error ''invalid character''), k)),
      jwk_NewSet = [],
      url_Parse = example_url_Parse,
      url_String = example_url_String,
      jwt_Parse = example_jwt_Parse\<rparr>"

definition example_world :: world where
  "example_world = \<lparr>requests = [], clock_reads = 0, rand_reads = 0\<rparr>"

definition example_client :: "('k memoryStore \<times> world, 'k) Store \<Rightarrow> ('k memoryStore \<times> world, 'k) client" where
  "example_client s =
     \<lparr>store = s, broker = ''https://idp.example'',
      brokerURL = example_URL ''https'' [] ''idp.example'' [],
      redirectURI = ''https://app.example/callback/path'',
      clientID = ''https://app.example'',
      responseMode = ''form_post'', leeway = DefaultLeeway\<rparr>"

definition example_discovery_URL :: string where
  "example_discovery_URL = ''https://idp.example/.well-known/openid-configuration''"

text \<open>
  The store with no cached document and the nonce keys \<open>ns\<close>, before any call; the same
  after the discovery document has been fetched (clock readings at 1 s and 2 s, lifetime
  120 s); and after the key set has been fetched too (readings at 3 s and 4 s, lifetime
  60 s).
\<close>

definition example_state :: "string set \<Rightarrow> string memoryStore \<times> world" where
  "example_state ns = (\<lparr>cache = Map.empty, nonces = ns\<rparr>, example_world)"

definition example_entry_discovery :: "string cacheEntry" where
  "example_entry_discovery =
     \<lparr>data = Some (DiscoveryDoc example_discovery), err = None, expires = 122 * Second\<rparr>"

definition example_entry_keys :: "string cacheEntry" where
  "example_entry_keys = \<lparr>data = Some (KeySet ''key-1''), err = None, expires = 64 * Second\<rparr>"

definition example_state_discovery :: "string set \<Rightarrow> string memoryStore \<times> world" where
  "example_state_discovery ns =
     (\<lparr>cache = [example_discovery_URL \<mapsto> example_entry_discovery], nonces = ns\<rparr>,
      \<lparr>requests = [example_discovery_URL], clock_reads = 2, rand_reads = 0\<rparr>)"

definition example_state_keys :: "string set \<Rightarrow> string memoryStore \<times> world" where
  "example_state_keys ns =
     (\<lparr>cache = [example_discovery_URL \<mapsto> example_entry_discovery,
                ''https://idp.example/keys'' \<mapsto> example_entry_keys],
       nonces = ns\<rparr>,
      \<lparr>requests = [''https://idp.example/keys'', example_discovery_URL],
       clock_reads = 4, rand_reads = 0\<rparr>)"

abbreviation env120 :: "string env" where
  "env120 \<equiv> example_env ''max-age=120''"

abbreviation client120 :: "(string memoryStore \<times> world, string) client" where
  "client120 \<equiv> example_client (NewMemoryStore (example_env ''max-age=120''))"

text \<open>
  The same broker, publishing a discovery document whose \<open>jwks_uri\<close> is the address of
  the discovery document itself.
\<close>

definition example_env_shared :: "string env" where
  "example_env_shared =
     env120\<lparr>json_Decode_discoveryDoc :=
              (\<lambda>body d. (None, example_discovery\<lparr>JWKsURI := example_discovery_URL\<rparr>))\<rparr>"

section \<open>Nonces are sixteen bytes in lowercase hexadecimal\<close>

lemma nibble_hi: "unat (drop_bit 4 (b :: byte)) < 16"
proof -
  have "unat b < 2 ^ LENGTH(8)" by (rule unsigned_less)
  then have "unat b div 16 < 16" by simp
  moreover have "unat (drop_bit 4 b) = unat b div 16"
    by (simp only: unat_drop_bit_eq) (simp add: drop_bit_eq_div)
  ultimately show ?thesis by simp
qed

lemma nibble_lo: "unat ((b :: byte) AND 0x0f) < 16"
proof -
  have "unat (b AND 15) \<le> unat (15 :: byte)"
    by (rule word_and_le1 [THEN word_le_nat_alt [THEN iffD1]])
  then show ?thesis by simp
qed

lemma hextable_nth: "n < 16 \<Longrightarrow> hextable ! n \<in> set hextable"
  by (rule nth_mem) (simp add: hextable_def)

lemma length_hex_byte: "length (hex_byte b) = 2"
  by (simp add: hex_byte_def)

lemma set_hex_byte: "set (hex_byte b) \<subseteq> set hextable"
  using nibble_hi [of b] nibble_lo [of b]
  by (simp add: hex_byte_def hextable_nth)

lemma length_hex_EncodeToString: "length (hex_EncodeToString buf) = 2 * length buf"
  by (induction buf) (simp_all add: hex_EncodeToString_def length_hex_byte)

lemma set_hex_EncodeToString: "set (hex_EncodeToString buf) \<subseteq> set hextable"
  using set_hex_byte by (auto simp: hex_EncodeToString_def)

lemma GenerateNonce_hex:
  assumes "GenerateNonce env w = Inr (nonce, w')"
  shows "length nonce = 32 \<and> set nonce \<subseteq> set hextable"
proof -
  from assms obtain bs where
    n: "nonce = hex_EncodeToString (take 16 (bs @ drop (length bs) (replicate 16 (0 :: byte))))"
    by (auto simp: GenerateNonce_def Let_def split: sum.splits)
  have "length (take 16 (bs @ drop (length bs) (replicate 16 (0 :: byte)))) = 16"
    by simp
  then show ?thesis
    using n set_hex_EncodeToString by (simp add: length_hex_EncodeToString)
qed

lemma colon_not_hex: "CHR '':'' \<notin> set hextable"
  by (simp add: hextable_def)

lemma hex_byte_ab: "hex_byte 0xab = ''ab''"
  by (simp add: hex_byte_def hextable_def drop_bit_eq_div)

lemma replicate_16: "replicate 16 x = [x, x, x, x, x, x, x, x, x, x, x, x, x, x, x, x]"
  by (simp add: eval_nat_numeral)

lemma example_GenerateNonce:
  "GenerateNonce (example_env cc) w = Inr (example_nonce, w\<lparr>rand_reads := Suc (rand_reads w)\<rparr>)"
  by (simp add: GenerateNonce_def example_env_def example_nonce_def hex_EncodeToString_def
      replicate_16 hex_byte_ab)

section \<open>The nonce store\<close>

text \<open>
  C1. For every email \<open>e\<close>: when the random source answers, \<open>NewNonce(e)\<close> on the
  in-memory store returns a nonce \<open>n\<close> with no error; \<open>ConsumeNonce(n, e)\<close> on the state
  it leaves returns \<open>nil\<close> and removes the pair; a second \<open>ConsumeNonce(n, e)\<close> on the
  resulting state returns \<open>InvalidNonce\<close> and changes nothing.
\<close>

theorem newNonce_consume_once:
  assumes "rand_Read env (rand_reads w) = Inr bs"
  shows "\<exists>n st1 w1.
           memoryStore_NewNonce env e (st, w) = Inr (Inr n, (st1, w1)) \<and>
           memoryStore_ConsumeNonce n e (st1, w1)
             = Inr (None, (st1\<lparr>nonces := nonces st1 - {pair_key n e}\<rparr>, w1)) \<and>
           memoryStore_ConsumeNonce n e (st1\<lparr>nonces := nonces st1 - {pair_key n e}\<rparr>, w1)
             = Inr (Some InvalidNonce, (st1\<lparr>nonces := nonces st1 - {pair_key n e}\<rparr>, w1))"
  using assms
  by (simp add: memoryStore_NewNonce_def memoryStore_ConsumeNonce_def GenerateNonce_def Let_def)

theorem newNonce_consume_once_witness:
  "memoryStore_NewNonce (example_env []) ''user@x.com'' (NewMemoryStore_fields, example_world)
     = Inr (Inr example_nonce,
            (\<lparr>cache = Map.empty, nonces = {pair_key example_nonce ''user@x.com''}\<rparr>,
             example_world\<lparr>rand_reads := 1\<rparr>)) \<and>
   memoryStore_ConsumeNonce example_nonce ''user@x.com''
       (\<lparr>cache = Map.empty, nonces = {pair_key example_nonce ''user@x.com''}\<rparr> :: string memoryStore,
        example_world\<lparr>rand_reads := 1\<rparr>)
     = Inr (None, (\<lparr>cache = Map.empty, nonces = {}\<rparr>, example_world\<lparr>rand_reads := 1\<rparr>)) \<and>
   memoryStore_ConsumeNonce example_nonce ''user@x.com''
       (\<lparr>cache = Map.empty, nonces = {}\<rparr> :: string memoryStore, example_world\<lparr>rand_reads := 1\<rparr>)
     = Inr (Some InvalidNonce,
            (\<lparr>cache = Map.empty, nonces = {}\<rparr>, example_world\<lparr>rand_reads := 1\<rparr>))"
proof -
  have h: "rand_Read (example_env []) (rand_reads example_world) = Inr (replicate 16 0xab)"
    by (simp add: example_env_def)
  show ?thesis
    using newNonce_consume_once [OF h, of "''user@x.com''" NewMemoryStore_fields]
    by (simp add: memoryStore_NewNonce_def example_GenerateNonce NewMemoryStore_fields_def
        example_world_def)
qed

subsection \<open>Pairs that were never issued\<close>

text \<open>
  The key of a pair is \<open>nonce:email\<close>. Two pairs whose nonces hold no colon have the same
  key only when they are the same pair.
\<close>

lemma pair_key_inj:
  assumes "pair_key n e = pair_key n' e'" "CHR '':'' \<notin> set n" "CHR '':'' \<notin> set n'"
  shows "n = n' \<and> e = e'"
proof -
  have t: "takeWhile (\<lambda>c. c \<noteq> CHR '':'') (pair_key m x) = m" if "CHR '':'' \<notin> set m" for m x
    using that by (induction m) (auto simp: pair_key_def)
  have "n = n'" using t [OF assms(2), of e] t [OF assms(3), of e'] assms(1) by simp
  then show ?thesis using assms(1) by (simp add: pair_key_def)
qed

lemma run_op_inv:
  assumes "run_inv s" "run_op env x s = Some s'"
  shows "run_inv s'"
proof (cases x)
  case (CallNewNonce email)
  obtain st w issued where s: "s = ((st, w), issued)" by (metis prod.collapse)
  from assms(2) CallNewNonce s obtain nonce w' where
    g: "GenerateNonce env w = Inr (nonce, w')" and
    s': "s' = ((st\<lparr>nonces := insert (pair_key nonce email) (nonces st)\<rparr>, w'),
               insert (nonce, email) issued)"
    by (auto simp: memoryStore_NewNonce_def Let_def split: sum.splits prod.splits)
  from GenerateNonce_hex [OF g] colon_not_hex have "CHR '':'' \<notin> set nonce" by auto
  with assms(1) s show ?thesis unfolding s' run_inv_def by fastforce
next
  case (CallConsumeNonce nonce email)
  obtain st w issued where s: "s = ((st, w), issued)" by (metis prod.collapse)
  from assms(2) CallConsumeNonce s have
    "s' = s \<or> s' = ((st\<lparr>nonces := nonces st - {pair_key nonce email}\<rparr>, w), issued)"
    by (auto simp: memoryStore_ConsumeNonce_def Let_def split: if_splits)
  with assms(1) s show ?thesis unfolding run_inv_def by auto
qed

lemma run_ops_inv: "run_inv s \<Longrightarrow> run_ops env xs s = Some s' \<Longrightarrow> run_inv s'"
proof (induction xs arbitrary: s)
  case Nil
  then show ?case by simp
next
  case (Cons x xs)
  then show ?case by (auto split: option.splits dest: run_op_inv)
qed

text \<open>
  What does hold of a pair that was never issued: when the nonce presented holds no
  colon, \<open>ConsumeNonce\<close> returns \<open>InvalidNonce\<close> and leaves the store as it was.
\<close>

lemma consumeNonce_unissued:
  assumes "run_ops env xs ((NewMemoryStore_fields, w), {}) = Some ((st', w'), issued)"
    and "(nonce, email) \<notin> issued" and "CHR '':'' \<notin> set nonce"
  shows "memoryStore_ConsumeNonce nonce email (st', w') = Inr (Some InvalidNonce, (st', w'))"
proof -
  have "run_inv ((NewMemoryStore_fields, w), {})"
    by (simp add: run_inv_def NewMemoryStore_fields_def)
  from run_ops_inv [OF this assms(1)] have inv: "run_inv ((st', w'), issued)" .
  have "pair_key nonce email \<notin> nonces st'"
  proof
    assume "pair_key nonce email \<in> nonces st'"
    with inv obtain n e where ne: "(n, e) \<in> issued" "pair_key nonce email = pair_key n e"
      unfolding run_inv_def by fastforce
    moreover from inv ne(1) have "CHR '':'' \<notin> set n" unfolding run_inv_def by fastforce
    ultimately have "nonce = n \<and> email = e" using pair_key_inj assms(3) by blast
    with ne(1) assms(2) show False by simp
  qed
  then show ?thesis by (simp add: memoryStore_ConsumeNonce_def Let_def)
qed

text \<open>
  C2. \<open>ConsumeNonce\<close> with a pair that \<open>NewNonce\<close> never issued is claimed to return
  \<open>InvalidNonce\<close> and to leave the stored pairs unchanged. The store keeps a pair as the
  string \<open>nonce:email\<close>, so the run below contradicts it: after \<open>NewNonce("b:c")\<close> has
  issued the nonce \<open>n\<close>, the only issued pair is \<open>(n, "b:c")\<close>, and
  \<open>ConsumeNonce(n ++ ":b", "c")\<close>, whose pair was never issued, returns \<open>nil\<close> and
  deletes the stored pair.
\<close>

theorem consumeNonce_colon_collision:
  "run_ops (example_env []) [CallNewNonce ''b:c''] ((NewMemoryStore_fields, example_world), {})
     = Some ((\<lparr>cache = Map.empty, nonces = {example_nonce @ '':b:c''}\<rparr>,
              example_world\<lparr>rand_reads := 1\<rparr>),
             {(example_nonce, ''b:c'')}) \<and>
   (example_nonce @ '':b'', ''c'') \<notin> {(example_nonce, ''b:c'')} \<and>
   memoryStore_ConsumeNonce (example_nonce @ '':b'') ''c''
       (\<lparr>cache = Map.empty, nonces = {example_nonce @ '':b:c''}\<rparr> :: string memoryStore,
        example_world\<lparr>rand_reads := 1\<rparr>)
     = Inr (None, (\<lparr>cache = Map.empty, nonces = {}\<rparr>, example_world\<lparr>rand_reads := 1\<rparr>))"
  by (simp add: memoryStore_NewNonce_def example_GenerateNonce NewMemoryStore_fields_def
      example_world_def memoryStore_ConsumeNonce_def pair_key_def)

section \<open>The lifetime \<open>SimpleFetch\<close> returns\<close>

lemma int64_id: "- (2 ^ 63) \<le> x \<Longrightarrow> x < 2 ^ 63 \<Longrightarrow> int64 x = x"
  by (simp add: int64_def)

lemma SimpleFetch_error_lifetime:
  "SimpleFetch env url dat w = ((maxAge, Some e, dat'), w') \<Longrightarrow> maxAge = 3 * Second"
  by (auto simp: SimpleFetch_def Let_def defaultErrMaxAge_def split: sum.splits if_splits prod.splits option.splits)

lemma SimpleFetch_success_lifetime:
  assumes "SimpleFetch env url dat w = ((maxAge, None, dat'), w')"
  shows "\<exists>res. http_Get env (length (requests w)) url = Inr res \<and>
           (case header_max_age res of
              None \<Rightarrow> maxAge = 60 * Second
            | Some v \<Rightarrow>
                maxAge = (if int64 (v * Second) > 60 * Second then int64 (v * Second) else 60 * Second))"
  using assms
  by (auto simp: SimpleFetch_def Let_def defaultMaxAge_def Minute_def header_max_age_def
      split: sum.splits if_splits prod.splits option.splits)

lemma SimpleFetch_success_lifetime_in_range:
  assumes "SimpleFetch env url dat w = ((maxAge, None, dat'), w')"
    and "http_Get env (length (requests w)) url = Inr res"
    and "header_max_age res = Some v" and "0 \<le> v" and "v \<le> 9223372036"
  shows "maxAge = (if v > 60 then v * Second else 60 * Second)"
proof -
  have "- (2 ^ 63) \<le> v * Second" "v * Second < 2 ^ 63"
    using assms(4,5) by (simp_all add: Second_def)
  then have "int64 (v * Second) = v * Second" by (rule int64_id)
  with SimpleFetch_success_lifetime [OF assms(1)] assms(2,3) show ?thesis
    by (auto simp: Second_def)
qed

text \<open>
  The three lemmas above are what holds of the lifetime: 3 s with every error; on success
  60 s when the header gives no \<open>max-age\<close>, and otherwise the larger of 60 s and the
  \<open>int64\<close> product of the \<open>max-age\<close> with \<open>time.Second\<close>, which is the \<open>max-age\<close> in
  seconds as long as it is at most 9223372036.
\<close>

lemma example_header:
  "maxAgeRe_FindStringSubmatch ''max-age=9223372037'' = Some ''9223372037''"
  by (simp add: maxAgeRe_at_def is_space_def is_digit_def)

lemma example_parse: "ParseInt ''9223372037'' = Inr 9223372037"
  by (simp add: ParseInt_def Let_def is_digit_def digits_value_def)

text \<open>
  C7. On success \<open>SimpleFetch\<close> is claimed to return the parsed \<open>max-age\<close> exactly when it
  is larger than 60 seconds. It does not when the multiplication by \<open>time.Second\<close>
  overflows \<open>int64\<close>: for a response \<open>200 OK\<close> with \<open>Cache-Control: max-age=9223372037\<close>,
  whose \<open>max-age\<close> parses to 9223372037 seconds, the product wraps to a negative duration
  and \<open>SimpleFetch\<close> returns 60 seconds.
\<close>

theorem simpleFetch_max_age_overflow:
  "header_max_age (example_Response 200 ''200 OK'' ''max-age=9223372037'' ''discovery'')
     = Some 9223372037 \<and>
   SimpleFetch (example_env ''max-age=9223372037'')
       ''https://idp.example/.well-known/openid-configuration''
       (DiscoveryDoc \<lparr>JWKsURI = [], AuthorizationEndpoint = []\<rparr>) example_world
     = ((60 * Second, None, DiscoveryDoc example_discovery),
        example_world\<lparr>requests := [''https://idp.example/.well-known/openid-configuration'']\<rparr>)"
  by (simp add: header_max_age_def example_Response_def Header_Get_def example_header example_parse
      SimpleFetch_def example_env_def example_http_Get_def example_world_def json_Decode_def
      defaultMaxAge_def defaultErrMaxAge_def Minute_def Second_def int64_def
      del: maxAgeRe_FindStringSubmatch.simps)

lemma example_header_120: "maxAgeRe_FindStringSubmatch ''max-age=120'' = Some ''120''"
  by (simp add: maxAgeRe_at_def is_space_def is_digit_def)

lemma example_parse_120: "ParseInt ''120'' = Inr 120"
  by (simp add: ParseInt_def Let_def is_digit_def digits_value_def)

lemma example_SimpleFetch_discovery:
  "SimpleFetch (example_env ''max-age=120'') ''https://idp.example/.well-known/openid-configuration''
      (DiscoveryDoc d) w
     = ((120 * Second, None, DiscoveryDoc example_discovery),
        w\<lparr>requests := ''https://idp.example/.well-known/openid-configuration'' # requests w\<rparr>)"
  by (simp add: SimpleFetch_def example_env_def example_http_Get_def example_Response_def
      Header_Get_def example_header_120 example_parse_120 json_Decode_def
      defaultMaxAge_def defaultErrMaxAge_def Minute_def Second_def int64_def
      del: maxAgeRe_FindStringSubmatch.simps)

lemma example_SimpleFetch_missing:
  "SimpleFetch (example_env cc) ''https://idp.example/missing'' dat w
     = ((3 * Second, Some (Error ''unexpected HTTP status: 404 Not Found''), dat),
        w\<lparr>requests := ''https://idp.example/missing'' # requests w\<rparr>)"
  by (simp add: SimpleFetch_def example_env_def example_http_Get_def example_Response_def
      defaultErrMaxAge_def)

lemma example_SimpleFetch_empty:
  "SimpleFetch (example_env cc) ''https://idp.example/empty'' dat w
     = ((3 * Second, Some (Error ''unexpected HTTP status: 204 No Content''), dat),
        w\<lparr>requests := ''https://idp.example/empty'' # requests w\<rparr>)"
  by (simp add: SimpleFetch_def example_env_def example_http_Get_def example_Response_def
      defaultErrMaxAge_def)

text \<open>
  C8 (as amended). For every response whose status code is not 200, \<open>SimpleFetch\<close> returns
  the status error and the 3-second lifetime, whatever the JSON decoder would do, and
  leaves the destination untouched; a response with status code 200 is decoded: the
  error and the destination are those of the decoder.
\<close>

theorem simpleFetch_status:
  assumes "http_Get env (length (requests w)) url = Inr res"
  shows "(StatusCode res \<noteq> 200 \<longrightarrow>
            (\<forall>f g. SimpleFetch (env\<lparr>json_Decode_discoveryDoc := f, json_Decode_Set := g\<rparr>) url dat w
               = ((3 * Second, Some (Error (''unexpected HTTP status: '' @ Status res)), dat),
                  w\<lparr>requests := url # requests w\<rparr>))) \<and>
         (StatusCode res = 200 \<longrightarrow>
            (\<exists>maxAge. SimpleFetch env url dat w
               = ((maxAge, json_Decode env (Body res) dat), w\<lparr>requests := url # requests w\<rparr>)))"
  using assms
  by (auto simp: SimpleFetch_def Let_def defaultErrMaxAge_def split: option.splits prod.splits)

theorem simpleFetch_status_witness:
  "SimpleFetch (example_env []) ''https://idp.example/missing''
       (DiscoveryDoc \<lparr>JWKsURI = [], AuthorizationEndpoint = []\<rparr>) example_world
     = ((3 * Second, Some (Error ''unexpected HTTP status: 404 Not Found''),
         DiscoveryDoc \<lparr>JWKsURI = [], AuthorizationEndpoint = []\<rparr>),
        example_world\<lparr>requests := [''https://idp.example/missing'']\<rparr>) \<and>
   SimpleFetch env120 ''https://idp.example/.well-known/openid-configuration''
       (DiscoveryDoc \<lparr>JWKsURI = [], AuthorizationEndpoint = []\<rparr>) example_world
     = ((120 * Second, None, DiscoveryDoc example_discovery),
        example_world\<lparr>requests := [''https://idp.example/.well-known/openid-configuration'']\<rparr>)"
proof -
  have h1: "http_Get (example_env []) (length (requests example_world)) ''https://idp.example/missing''
              = Inr (example_Response 404 ''404 Not Found'' [] ''discovery'')"
    by (simp add: example_env_def example_http_Get_def)
  have h2: "http_Get env120 (length (requests example_world))
              ''https://idp.example/.well-known/openid-configuration''
              = Inr (example_Response 200 ''200 OK'' ''max-age=120'' ''discovery'')"
    by (simp add: example_env_def example_http_Get_def)
  from simpleFetch_status [OF h1] simpleFetch_status [OF h2]
  show ?thesis
    by (simp add: example_SimpleFetch_missing example_SimpleFetch_discovery example_world_def)
qed

text \<open>
  C8 as stated fails: the response \<open>204 No Content\<close> is in the 2xx class, its body would
  decode, and \<open>SimpleFetch\<close> returns the status error without decoding it.
\<close>

theorem simpleFetch_204_counterexample:
  "http_Get (example_env []) (length (requests example_world)) ''https://idp.example/empty''
     = Inr (example_Response 204 ''204 No Content'' [] ''discovery'') \<and>
   200 \<le> StatusCode (example_Response 204 ''204 No Content'' [] ''discovery'') \<and>
   StatusCode (example_Response 204 ''204 No Content'' [] ''discovery'') < 300 \<and>
   json_Decode (example_env []) ''discovery'' (DiscoveryDoc \<lparr>JWKsURI = [], AuthorizationEndpoint = []\<rparr>)
     = (None, DiscoveryDoc example_discovery) \<and>
   SimpleFetch (example_env []) ''https://idp.example/empty''
       (DiscoveryDoc \<lparr>JWKsURI = [], AuthorizationEndpoint = []\<rparr>) example_world
     = ((3 * Second, Some (Error ''unexpected HTTP status: 204 No Content''),
         DiscoveryDoc \<lparr>JWKsURI = [], AuthorizationEndpoint = []\<rparr>),
        example_world\<lparr>requests := [''https://idp.example/empty'']\<rparr>)"
  by (simp add: example_SimpleFetch_empty example_world_def)
     (simp add: example_env_def example_http_Get_def example_Response_def json_Decode_def)

section \<open>The cache of the in-memory store\<close>

lemma json_Decode_same_type: "same_type (snd (json_Decode env body dat)) dat"
  by (cases dat) (simp_all add: json_Decode_def split: prod.splits)

lemma same_type_trans: "same_type a b \<Longrightarrow> same_type b c \<Longrightarrow> same_type a c"
  by (cases a; cases b; cases c) simp_all

lemma same_type_refl: "same_type a a"
  by (cases a) simp_all

lemma SimpleFetch_data:
  assumes sf: "SimpleFetch env url dat w = ((maxAge, e, dat'), w')"
  shows "dat' = dat \<or> (\<exists>body. dat' = snd (json_Decode env body dat))"
proof (cases "http_Get env (length (requests w)) url")
  case (Inl x)
  with sf show ?thesis by (simp add: SimpleFetch_def Let_def)
next
  case (Inr res)
  obtain e2 d2 where j: "json_Decode env (Body res) dat = (e2, d2)" by (metis prod.collapse)
  from sf Inr j have "dat' = dat \<or> dat' = d2"
    by (cases e2) (auto simp: SimpleFetch_def Let_def split: if_splits)
  with j show ?thesis by (metis snd_conv)
qed

lemma SimpleFetch_same_type:
  "SimpleFetch env url dat w = ((maxAge, e, dat'), w') \<Longrightarrow> same_type dat' dat"
  using SimpleFetch_data [of env url dat w maxAge e dat' w'] json_Decode_same_type [of env _ dat]
  by (auto simp: same_type_refl)

lemma SimpleFetch_requests:
  "SimpleFetch env url dat w = (r, w') \<Longrightarrow> w' = w\<lparr>requests := url # requests w\<rparr>"
  by (auto simp: SimpleFetch_def Let_def split: sum.splits if_splits prod.splits option.splits)

lemma Fetch_hit:
  assumes "cache st url = Some entry" and "time_Now env (clock_reads w) < expires entry"
  shows "memoryStore_Fetch env url dat (st, w) =
           (case err entry of
              Some e \<Rightarrow> Inr (Inl e, (st, w\<lparr>clock_reads := Suc (clock_reads w)\<rparr>))
            | None \<Rightarrow>
                (case data entry of
                   None \<Rightarrow> Inl (Panic ''reflect: call of reflect.Value.Set on zero Value'')
                 | Some ptr \<Rightarrow>
                     if same_type ptr dat
                     then Inr (Inr ptr, (st, w\<lparr>clock_reads := Suc (clock_reads w)\<rparr>))
                     else Inl (Panic ''reflect.Set: value is not assignable'')))"
proof -
  have "st\<lparr>cache := (cache st)(url \<mapsto> entry)\<rparr> = st"
    using assms(1) by (simp add: map_upd_triv)
  then show ?thesis
    using assms by (simp add: memoryStore_Fetch_def getCacheEntry_def Now_def)
qed

lemma Fetch_miss:
  assumes "\<not> time_Now env (clock_reads w) < expires (fst (getCacheEntry st url))"
    and "memoryStore_Fetch env url dat (st, w) = Inr (Inr p, (st1, w1))"
  shows "\<exists>maxAge.
           SimpleFetch env url dat (w\<lparr>clock_reads := Suc (clock_reads w)\<rparr>)
             = ((maxAge, None, p), w\<lparr>clock_reads := Suc (clock_reads w), requests := url # requests w\<rparr>) \<and>
           w1 = w\<lparr>clock_reads := Suc (Suc (clock_reads w)), requests := url # requests w\<rparr> \<and>
           cache st1 url = Some \<lparr>data = Some p, err = None,
              expires = time_Now env (Suc (clock_reads w)) + maxAge\<rparr>"
proof -
  obtain maxAge e dat' w' where sf:
    "SimpleFetch env url dat (w\<lparr>clock_reads := Suc (clock_reads w)\<rparr>) = ((maxAge, e, dat'), w')"
    by (metis prod.collapse)
  from SimpleFetch_requests [OF sf] have w': "w' = w\<lparr>clock_reads := Suc (clock_reads w), requests := url # requests w\<rparr>"
    by simp
  show ?thesis
    using assms sf w'
    by (auto simp: memoryStore_Fetch_def Now_def Let_def split: prod.splits option.splits if_splits)
qed

lemma example_time_Now: "time_Now (example_env cc) n = (int n + 1) * Second"
  by (simp add: example_env_def)

lemma memoryStore_Fetch_nonces:
  assumes "memoryStore_Fetch env url dat \<sigma> = Inr (r, \<sigma>')"
  shows "nonces (fst \<sigma>') = nonces (fst \<sigma>)"
  using assms
  by (auto simp: memoryStore_Fetch_def getCacheEntry_def Let_def
      split: prod.splits option.splits if_splits)

lemma example_Fetch_discovery:
  "memoryStore_Fetch env120 example_discovery_URL (DiscoveryDoc d) (example_state ns)
     = Inr (Inr (DiscoveryDoc example_discovery), example_state_discovery ns)"
  by (simp add: memoryStore_Fetch_def getCacheEntry_def Now_def Let_def example_state_def
      example_state_discovery_def example_entry_discovery_def example_discovery_URL_def
      example_SimpleFetch_discovery example_world_def example_time_Now Second_def)

lemma example_SimpleFetch_keys:
  "SimpleFetch (example_env cc) ''https://idp.example/keys'' (KeySet k) w
     = ((60 * Second, None, KeySet ''key-1''),
        w\<lparr>requests := ''https://idp.example/keys'' # requests w\<rparr>)"
  by (simp add: SimpleFetch_def example_env_def example_http_Get_def example_Response_def
      Header_Get_def json_Decode_def maxAgeRe_at_def
      defaultMaxAge_def defaultErrMaxAge_def Minute_def Second_def)

lemma example_Fetch_keys:
  "memoryStore_Fetch env120 ''https://idp.example/keys'' (KeySet k) (example_state_discovery ns)
     = Inr (Inr (KeySet ''key-1''), example_state_keys ns)"
  by (simp add: memoryStore_Fetch_def getCacheEntry_def Now_def Let_def
      example_state_discovery_def example_state_keys_def example_entry_keys_def
      example_discovery_URL_def example_SimpleFetch_keys example_time_Now Second_def)

lemma same_type_sym: "same_type a b \<Longrightarrow> same_type b a"
  by (cases a; cases b) simp_all

lemma Fetch_hit_panic:
  assumes "cache st url = Some entry" and "time_Now env (clock_reads w) < expires entry"
    and "err entry = None" and "data entry = Some p" and "\<not> same_type p dat"
  shows "\<exists>msg. memoryStore_Fetch env url dat (st, w) = Inl (Panic msg)"
  using Fetch_hit [OF assms(1,2), of dat] assms(3-5) by simp

text \<open>
  C6 (as amended). When the entry of a URL has not expired, \<open>Fetch\<close> returns the error the
  entry stores, or else its document when the destination has the document's type, and
  then leaves the store as it is and sends no request; to a destination of another type
  it panics in \<open>reflect.Value.Set\<close>. And when a \<open>Fetch\<close> that found no unexpired entry has
  fetched a document, the entry holds that document and expires at the clock reading
  taken after the fetch plus the lifetime \<open>SimpleFetch\<close> returned; a second \<open>Fetch\<close> of
  the same URL that reads the clock before then returns the same document to a
  destination of the same type, the two calls together having sent one request, and
  panics for a destination of another type.
\<close>

theorem fetch_unexpired_entry:
  "(\<forall>entry. cache st url = Some entry \<and> time_Now env (clock_reads w) < expires entry \<longrightarrow>
      (\<forall>e. err entry = Some e \<longrightarrow>
         memoryStore_Fetch env url dat (st, w)
           = Inr (Inl e, (st, w\<lparr>clock_reads := Suc (clock_reads w)\<rparr>))) \<and>
      (\<forall>p. err entry = None \<and> data entry = Some p \<longrightarrow>
         (same_type p dat \<longrightarrow>
            memoryStore_Fetch env url dat (st, w)
              = Inr (Inr p, (st, w\<lparr>clock_reads := Suc (clock_reads w)\<rparr>))) \<and>
         (\<not> same_type p dat \<longrightarrow>
            (\<exists>msg. memoryStore_Fetch env url dat (st, w) = Inl (Panic msg))))) \<and>
   (\<forall>p st1 w1.
      \<not> time_Now env (clock_reads w) < expires (fst (getCacheEntry st url)) \<and>
      memoryStore_Fetch env url dat (st, w) = Inr (Inr p, (st1, w1)) \<longrightarrow>
      (\<exists>maxAge.
         SimpleFetch env url dat (w\<lparr>clock_reads := Suc (clock_reads w)\<rparr>)
           = ((maxAge, None, p),
              w\<lparr>clock_reads := Suc (clock_reads w), requests := url # requests w\<rparr>) \<and>
         w1 = w\<lparr>clock_reads := Suc (Suc (clock_reads w)), requests := url # requests w\<rparr> \<and>
         cache st1 url = Some \<lparr>data = Some p, err = None,
                               expires = time_Now env (Suc (clock_reads w)) + maxAge\<rparr> \<and>
         (\<forall>dat2.
            time_Now env (Suc (Suc (clock_reads w))) < time_Now env (Suc (clock_reads w)) + maxAge
            \<longrightarrow>
            (same_type dat2 dat \<longrightarrow>
               memoryStore_Fetch env url dat2 (st1, w1)
                 = Inr (Inr p, (st1, w1\<lparr>clock_reads := Suc (clock_reads w1)\<rparr>)) \<and>
               requests (w1\<lparr>clock_reads := Suc (clock_reads w1)\<rparr>) = url # requests w) \<and>
            (\<not> same_type dat2 dat \<longrightarrow>
               (\<exists>msg. memoryStore_Fetch env url dat2 (st1, w1) = Inl (Panic msg))))))"
proof (intro conjI allI impI)
  fix entry e
  assume "cache st url = Some entry \<and> time_Now env (clock_reads w) < expires entry"
    and "err entry = Some e"
  then show "memoryStore_Fetch env url dat (st, w)
      = Inr (Inl e, (st, w\<lparr>clock_reads := Suc (clock_reads w)\<rparr>))"
    by (simp add: Fetch_hit)
next
  fix entry p
  assume "cache st url = Some entry \<and> time_Now env (clock_reads w) < expires entry"
    and "err entry = None \<and> data entry = Some p" and "same_type p dat"
  then show "memoryStore_Fetch env url dat (st, w)
      = Inr (Inr p, (st, w\<lparr>clock_reads := Suc (clock_reads w)\<rparr>))"
    by (simp add: Fetch_hit)
next
  fix entry p
  assume "cache st url = Some entry \<and> time_Now env (clock_reads w) < expires entry"
    and "err entry = None \<and> data entry = Some p" and "\<not> same_type p dat"
  then show "\<exists>msg. memoryStore_Fetch env url dat (st, w) = Inl (Panic msg)"
    using Fetch_hit_panic [of st url entry env w p dat] by blast
next
  fix p st1 w1
  assume a: "\<not> time_Now env (clock_reads w) < expires (fst (getCacheEntry st url)) \<and>
      memoryStore_Fetch env url dat (st, w) = Inr (Inr p, (st1, w1))"
  then obtain maxAge where
    sf: "SimpleFetch env url dat (w\<lparr>clock_reads := Suc (clock_reads w)\<rparr>)
           = ((maxAge, None, p), w\<lparr>clock_reads := Suc (clock_reads w), requests := url # requests w\<rparr>)"
    and w1: "w1 = w\<lparr>clock_reads := Suc (Suc (clock_reads w)), requests := url # requests w\<rparr>"
    and c1: "cache st1 url = Some \<lparr>data = Some p, err = None,
              expires = time_Now env (Suc (clock_reads w)) + maxAge\<rparr>"
    using Fetch_miss [of env w st url dat p st1 w1] by blast
  from SimpleFetch_same_type [OF sf] have pd: "same_type p dat" .
  let ?entry = "\<lparr>data = Some p, err = None,
                  expires = time_Now env (Suc (clock_reads w)) + maxAge\<rparr>"
  have hit: "memoryStore_Fetch env url dat2 (st1, w1)
        = Inr (Inr p, (st1, w1\<lparr>clock_reads := Suc (clock_reads w1)\<rparr>))"
    if "time_Now env (Suc (Suc (clock_reads w))) < time_Now env (Suc (clock_reads w)) + maxAge"
      and "same_type dat2 dat" for dat2
  proof -
    from that(2) have "same_type dat dat2" by (rule same_type_sym)
    with pd have "same_type p dat2" by (rule same_type_trans)
    moreover from that(1) w1 have "time_Now env (clock_reads w1) < expires ?entry" by simp
    ultimately show ?thesis using Fetch_hit [OF c1, of env w1 dat2] by simp
  qed
  have panic: "\<exists>msg. memoryStore_Fetch env url dat2 (st1, w1) = Inl (Panic msg)"
    if "time_Now env (Suc (Suc (clock_reads w))) < time_Now env (Suc (clock_reads w)) + maxAge"
      and "\<not> same_type dat2 dat" for dat2
  proof -
    have "\<not> same_type p dat2"
    proof
      assume "same_type p dat2"
      then have "same_type dat2 p" by (rule same_type_sym)
      then have "same_type dat2 dat" using pd by (rule same_type_trans)
      with that(2) show False by simp
    qed
    moreover from that(1) w1 have "time_Now env (clock_reads w1) < expires ?entry" by simp
    ultimately show ?thesis using Fetch_hit_panic [OF c1, of env w1 p dat2] by simp
  qed
  have req: "requests (w1\<lparr>clock_reads := Suc (clock_reads w1)\<rparr>) = url # requests w"
    using w1 by simp
  show "\<exists>maxAge.
         SimpleFetch env url dat (w\<lparr>clock_reads := Suc (clock_reads w)\<rparr>)
           = ((maxAge, None, p),
              w\<lparr>clock_reads := Suc (clock_reads w), requests := url # requests w\<rparr>) \<and>
         w1 = w\<lparr>clock_reads := Suc (Suc (clock_reads w)), requests := url # requests w\<rparr> \<and>
         cache st1 url = Some \<lparr>data = Some p, err = None,
                               expires = time_Now env (Suc (clock_reads w)) + maxAge\<rparr> \<and>
         (\<forall>dat2.
            time_Now env (Suc (Suc (clock_reads w))) < time_Now env (Suc (clock_reads w)) + maxAge
            \<longrightarrow>
            (same_type dat2 dat \<longrightarrow>
               memoryStore_Fetch env url dat2 (st1, w1)
                 = Inr (Inr p, (st1, w1\<lparr>clock_reads := Suc (clock_reads w1)\<rparr>)) \<and>
               requests (w1\<lparr>clock_reads := Suc (clock_reads w1)\<rparr>) = url # requests w) \<and>
            (\<not> same_type dat2 dat \<longrightarrow>
               (\<exists>msg. memoryStore_Fetch env url dat2 (st1, w1) = Inl (Panic msg))))"
    using sf w1 c1 hit panic req by (intro exI [of _ maxAge]) blast
qed

theorem fetch_unexpired_entry_witness:
  "memoryStore_Fetch env120 example_discovery_URL
       (DiscoveryDoc \<lparr>JWKsURI = [], AuthorizationEndpoint = []\<rparr>) (example_state {})
     = Inr (Inr (DiscoveryDoc example_discovery), example_state_discovery {}) \<and>
   memoryStore_Fetch env120 example_discovery_URL
       (DiscoveryDoc \<lparr>JWKsURI = [], AuthorizationEndpoint = []\<rparr>) (example_state_discovery {})
     = Inr (Inr (DiscoveryDoc example_discovery),
            (fst (example_state_discovery {}),
             \<lparr>requests = [example_discovery_URL], clock_reads = 3, rand_reads = 0\<rparr>)) \<and>
   memoryStore_Fetch env120 ''https://idp.example/missing''
       (DiscoveryDoc \<lparr>JWKsURI = [], AuthorizationEndpoint = []\<rparr>)
       (\<lparr>cache = [''https://idp.example/missing'' \<mapsto>
                   \<lparr>data = Some (DiscoveryDoc \<lparr>JWKsURI = [], AuthorizationEndpoint = []\<rparr>),
                    err = Some (Error ''unexpected HTTP status: 404 Not Found''),
                    expires = 5 * Second\<rparr>],
         nonces = {}\<rparr>,
        \<lparr>requests = [''https://idp.example/missing''], clock_reads = 2, rand_reads = 0\<rparr>)
     = Inr (Inl (Error ''unexpected HTTP status: 404 Not Found''),
            (\<lparr>cache = [''https://idp.example/missing'' \<mapsto>
                   \<lparr>data = Some (DiscoveryDoc \<lparr>JWKsURI = [], AuthorizationEndpoint = []\<rparr>),
                    err = Some (Error ''unexpected HTTP status: 404 Not Found''),
                    expires = 5 * Second\<rparr>],
              nonces = {}\<rparr>,
             \<lparr>requests = [''https://idp.example/missing''], clock_reads = 3, rand_reads = 0\<rparr>))"
proof -
  let ?zero = "DiscoveryDoc \<lparr>JWKsURI = [], AuthorizationEndpoint = []\<rparr> :: string payload"
  let ?entry = "\<lparr>data = Some ?zero,
                  err = Some (Error ''unexpected HTTP status: 404 Not Found''),
                  expires = 5 * Second\<rparr>"
  let ?st = "\<lparr>cache = [''https://idp.example/missing'' \<mapsto> ?entry], nonces = {}\<rparr>"
  let ?w = "\<lparr>requests = [''https://idp.example/missing''], clock_reads = 2, rand_reads = 0\<rparr>"
  have first: "memoryStore_Fetch env120 example_discovery_URL ?zero (example_state {})
      = Inr (Inr (DiscoveryDoc example_discovery), example_state_discovery {})"
    by (rule example_Fetch_discovery)
  have hyp: "\<not> time_Now env120 (clock_reads (snd (example_state {})))
        < expires (fst (getCacheEntry (fst (example_state {})) example_discovery_URL)) \<and>
      memoryStore_Fetch env120 example_discovery_URL ?zero
          (fst (example_state {}), snd (example_state {}))
        = Inr (Inr (DiscoveryDoc example_discovery),
               (fst (example_state_discovery {}), snd (example_state_discovery {})))"
    by (simp add: first)
       (simp add: example_state_def getCacheEntry_def Let_def example_time_Now example_world_def
          Second_def)
  from fetch_unexpired_entry [of "fst (example_state {})" example_discovery_URL env120
      "snd (example_state {})" ?zero, THEN conjunct2, rule_format, OF hyp]
  obtain maxAge where
    sf: "SimpleFetch env120 example_discovery_URL ?zero
           (snd (example_state {})\<lparr>clock_reads := Suc (clock_reads (snd (example_state {})))\<rparr>)
         = ((maxAge, None, DiscoveryDoc example_discovery),
            snd (example_state {})
              \<lparr>clock_reads := Suc (clock_reads (snd (example_state {}))),
               requests := example_discovery_URL # requests (snd (example_state {}))\<rparr>)"
    and again: "\<forall>dat2.
        time_Now env120 (Suc (Suc (clock_reads (snd (example_state {})))))
          < time_Now env120 (Suc (clock_reads (snd (example_state {})))) + maxAge \<longrightarrow>
        (same_type dat2 ?zero \<longrightarrow>
           memoryStore_Fetch env120 example_discovery_URL dat2
               (fst (example_state_discovery {}), snd (example_state_discovery {}))
             = Inr (Inr (DiscoveryDoc example_discovery),
                    (fst (example_state_discovery {}),
                     snd (example_state_discovery {})
                       \<lparr>clock_reads := Suc (clock_reads (snd (example_state_discovery {})))\<rparr>)) \<and>
           requests (snd (example_state_discovery {})
                       \<lparr>clock_reads := Suc (clock_reads (snd (example_state_discovery {})))\<rparr>)
             = example_discovery_URL # requests (snd (example_state {}))) \<and>
        (\<not> same_type dat2 ?zero \<longrightarrow>
           (\<exists>msg. memoryStore_Fetch env120 example_discovery_URL dat2
                     (fst (example_state_discovery {}), snd (example_state_discovery {}))
                   = Inl (Panic msg)))"
    by blast
  from sf have m: "maxAge = 120 * Second"
    by (simp add: example_discovery_URL_def example_SimpleFetch_discovery)
  have live: "time_Now env120 (Suc (Suc (clock_reads (snd (example_state {})))))
      < time_Now env120 (Suc (clock_reads (snd (example_state {})))) + maxAge"
    unfolding m by (simp add: example_time_Now example_state_def example_world_def Second_def)
  from again [rule_format, OF live, THEN conjunct1, rule_format, of ?zero]
  have second: "memoryStore_Fetch env120 example_discovery_URL ?zero (example_state_discovery {})
      = Inr (Inr (DiscoveryDoc example_discovery),
             (fst (example_state_discovery {}),
              snd (example_state_discovery {})
                \<lparr>clock_reads := Suc (clock_reads (snd (example_state_discovery {})))\<rparr>))"
    by simp
  have stored: "cache ?st ''https://idp.example/missing'' = Some ?entry \<and>
      time_Now env120 (clock_reads ?w) < expires ?entry"
    by (simp add: example_time_Now Second_def)
  have third: "memoryStore_Fetch env120 ''https://idp.example/missing'' ?zero (?st, ?w)
      = Inr (Inl (Error ''unexpected HTTP status: 404 Not Found''),
             (?st, ?w\<lparr>clock_reads := Suc (clock_reads ?w)\<rparr>))"
    using fetch_unexpired_entry [of ?st "''https://idp.example/missing''" env120 ?w ?zero,
        THEN conjunct1, rule_format, OF stored, THEN conjunct1, rule_format,
        of "Error ''unexpected HTTP status: 404 Not Found''"]
    by simp
  from first second third show ?thesis
    by (simp add: example_state_discovery_def)
qed

text \<open>
  C6 as stated fails: the entry of the discovery URL is unexpired and stores a discovery
  document with no error, and \<open>Fetch\<close> of that URL into a key set does not return the
  stored document: it panics.
\<close>

theorem fetch_other_type_counterexample:
  "cache (fst (example_state_discovery {})) example_discovery_URL = Some example_entry_discovery \<and>
   err example_entry_discovery = None \<and>
   data example_entry_discovery = Some (DiscoveryDoc example_discovery) \<and>
   time_Now env120 (clock_reads (snd (example_state_discovery {}))) < expires example_entry_discovery \<and>
   memoryStore_Fetch env120 example_discovery_URL (KeySet []) (example_state_discovery {})
     = Inl (Panic ''reflect.Set: value is not assignable'')"
proof -
  have e: "cache (fst (example_state_discovery {})) example_discovery_URL
             = Some example_entry_discovery"
    by (simp add: example_state_discovery_def)
  have t: "time_Now env120 (clock_reads (snd (example_state_discovery {})))
             < expires example_entry_discovery"
    by (simp add: example_state_discovery_def example_entry_discovery_def example_time_Now
        Second_def)
  have "memoryStore_Fetch env120 example_discovery_URL (KeySet [])
          (fst (example_state_discovery {}), snd (example_state_discovery {}))
        = Inl (Panic ''reflect.Set: value is not assignable'')"
    unfolding Fetch_hit [OF e t] by (simp add: example_entry_discovery_def)
  with e t show ?thesis by (simp add: example_entry_discovery_def)
qed

text \<open>
  \<open>Verify\<close> reaches this: when the discovery document names its own address as
  \<open>jwks_uri\<close>, the key set is fetched from the entry that the discovery document has just
  filled, and every \<open>Verify\<close> panics.
\<close>

lemma example_shared_SimpleFetch:
  "SimpleFetch example_env_shared example_discovery_URL (DiscoveryDoc d) w
     = ((120 * Second, None, DiscoveryDoc (example_discovery\<lparr>JWKsURI := example_discovery_URL\<rparr>)),
        w\<lparr>requests := example_discovery_URL # requests w\<rparr>)"
  by (simp add: SimpleFetch_def example_env_shared_def example_env_def example_http_Get_def
      example_Response_def example_discovery_URL_def
      Header_Get_def example_header_120 example_parse_120 json_Decode_def
      defaultMaxAge_def defaultErrMaxAge_def Minute_def Second_def int64_def
      del: maxAgeRe_FindStringSubmatch.simps)

lemma example_shared_time: "time_Now example_env_shared n = (int n + 1) * Second"
  by (simp add: example_env_shared_def example_env_def)

lemma Verify_panics_on_shared_URL:
  "Verify example_env_shared (example_client (NewMemoryStore example_env_shared)) tokenStr
       (example_state {})
     = Inl (Panic ''reflect.Set: value is not assignable'')"
proof -
  let ?c = "example_client (NewMemoryStore example_env_shared)"
  let ?doc = "example_discovery\<lparr>JWKsURI := example_discovery_URL\<rparr>"
  let ?s1 = "(\<lparr>cache = [example_discovery_URL \<mapsto>
                 \<lparr>data = Some (DiscoveryDoc ?doc), err = None, expires = 122 * Second\<rparr>],
               nonces = {}\<rparr>,
              \<lparr>requests = [example_discovery_URL], clock_reads = 2, rand_reads = 0\<rparr>)
             :: string memoryStore \<times> world"
  have u: "url_String example_env_shared ((brokerURL ?c)\<lparr>Path := discoveryPath\<rparr>)
             = example_discovery_URL"
    by (simp add: example_env_shared_def example_env_def example_client_def example_URL_def
        example_url_String_def discoveryPath_def example_discovery_URL_def)
  have s: "Fetch (store ?c) = memoryStore_Fetch example_env_shared"
    by (simp add: example_client_def NewMemoryStore_def)
  have f1: "memoryStore_Fetch example_env_shared example_discovery_URL (DiscoveryDoc d)
              (example_state {}) = Inr (Inr (DiscoveryDoc ?doc), ?s1)" for d
    by (simp add: memoryStore_Fetch_def getCacheEntry_def Now_def Let_def example_state_def
        example_shared_SimpleFetch example_world_def example_shared_time Second_def)
  have d: "fetchDiscovery example_env_shared ?c (example_state {}) = Inr (Inr ?doc, ?s1)"
    unfolding fetchDiscovery_def Let_def u s f1 by simp
  have f2: "memoryStore_Fetch example_env_shared example_discovery_URL (KeySet k) ?s1
              = Inl (Panic ''reflect.Set: value is not assignable'')" for k
    by (simp add: memoryStore_Fetch_def getCacheEntry_def Now_def Let_def
        example_shared_time Second_def)
  have j: "JWKsURI ?doc = example_discovery_URL" by simp
  show ?thesis
    unfolding Verify_def d by (simp add: s f2)
qed

section \<open>\<open>Verify\<close>\<close>

lemma string_claim_empty_iff:
  "string_claim v = [] \<longleftrightarrow>
     v = None \<or> v = Some (JString []) \<or> (\<exists>x. v = Some x \<and> not_a_string x)"
  by (cases v rule: string_claim.cases) auto

lemma fetchDiscovery_Fetch:
  assumes "fetchDiscovery env c \<sigma> = Inr (r, \<sigma>1)"
  shows "\<exists>r'. Fetch (store c) (url_String env ((brokerURL c)\<lparr>Path := discoveryPath\<rparr>))
                 (DiscoveryDoc \<lparr>JWKsURI = [], AuthorizationEndpoint = []\<rparr>) \<sigma> = Inr (r', \<sigma>1)"
  using assms
  by (auto simp: fetchDiscovery_def Let_def split: sum.splits prod.splits payload.splits)

lemma Verify_missing:
  assumes d: "fetchDiscovery env c \<sigma> = Inr (Inr discovery, \<sigma>1)"
    and k: "Fetch (store c) (JWKsURI discovery) (KeySet (jwk_NewSet env)) \<sigma>1
              = Inr (Inr (KeySet keySet), \<sigma>2)"
    and p: "jwt_Parse env tokenStr keySet (leeway c) (broker c) (clientID c) = Inr token"
    and m: "string_claim (token ''nonce'') = [] \<or> string_claim (token ''email'') = []"
  shows "Verify env c tokenStr \<sigma>
           = Inr (Inl (Error (if string_claim (token ''nonce'') = [] then ''nonce claim missing''
                              else ''email claim missing'')), \<sigma>2)"
  using assms by (auto simp: Verify_def Let_def)

lemma fetchDiscovery_store_ConsumeNonce:
  "fetchDiscovery env (c\<lparr>store := (store c)\<lparr>ConsumeNonce := f\<rparr>\<rparr>) \<sigma> = fetchDiscovery env c \<sigma>"
  by (simp add: fetchDiscovery_def)

lemma fetchDiscovery_jwt_Parse:
  "fetchDiscovery (env\<lparr>jwt_Parse := P\<rparr>) c \<sigma> = fetchDiscovery env c \<sigma>"
  by (simp add: fetchDiscovery_def)

lemma example_fetchDiscovery:
  "fetchDiscovery env120 client120 (example_state ns)
     = Inr (Inr example_discovery, example_state_discovery ns)"
proof -
  have u: "url_String env120 ((brokerURL client120)\<lparr>Path := discoveryPath\<rparr>) = example_discovery_URL"
    by (simp add: example_env_def example_client_def example_URL_def example_url_String_def
        discoveryPath_def example_discovery_URL_def)
  have s: "Fetch (store client120) = memoryStore_Fetch env120"
    by (simp add: example_client_def NewMemoryStore_def)
  show ?thesis
    unfolding fetchDiscovery_def Let_def u s example_Fetch_discovery by simp
qed

lemma example_Fetch_keys_client:
  "Fetch (store client120) (JWKsURI example_discovery) (KeySet (jwk_NewSet env120))
      (example_state_discovery ns)
     = Inr (Inr (KeySet ''key-1''), example_state_keys ns)"
proof -
  have s: "Fetch (store client120) = memoryStore_Fetch env120"
    by (simp add: example_client_def NewMemoryStore_def)
  have j: "JWKsURI example_discovery = ''https://idp.example/keys''"
    by (simp add: example_discovery_def)
  show ?thesis unfolding s j by (rule example_Fetch_keys)
qed

lemma example_jwt:
  "jwt_Parse env120 tokenStr ''key-1'' (leeway client120) (broker client120) (clientID client120)
     = example_jwt_Parse tokenStr ''key-1'' DefaultLeeway ''https://idp.example''
         ''https://app.example''"
  by (simp add: example_env_def example_client_def)

lemma example_Fetch_preserves_nonces:
  "Fetch (store client120) url dat s = Inr (r, s') \<Longrightarrow> nonces (fst s') = nonces (fst s)"
  by (simp add: example_client_def NewMemoryStore_def memoryStore_Fetch_nonces)

lemma example_ConsumeNonce:
  "ConsumeNonce (store client120) = memoryStore_ConsumeNonce"
  by (simp add: example_client_def NewMemoryStore_def)

text \<open>
  The two missing-claim errors are returned on no other path of \<open>Verify\<close>: every other
  error it returns has another message.
\<close>

lemma Verify_missing_claim_only:
  assumes "Verify env c tokenStr \<sigma> = Inr (Inl (Error msg), \<sigma>')"
    and "msg = ''nonce claim missing'' \<or> msg = ''email claim missing''"
  shows "\<exists>discovery \<sigma>1 keySet token.
           fetchDiscovery env c \<sigma> = Inr (Inr discovery, \<sigma>1) \<and>
           Fetch (store c) (JWKsURI discovery) (KeySet (jwk_NewSet env)) \<sigma>1
             = Inr (Inr (KeySet keySet), \<sigma>') \<and>
           jwt_Parse env tokenStr keySet (leeway c) (broker c) (clientID c) = Inr token \<and>
           (string_claim (token ''nonce'') = [] \<or> string_claim (token ''email'') = [])"
proof -
  have fd: "e \<noteq> Error msg" if "fetchDiscovery env c \<sigma> = Inr (Inl e, s)" for e s
    using that assms(2)
    by (auto simp: fetchDiscovery_def Let_def split: sum.splits prod.splits payload.splits)
  from assms(1) fd obtain discovery \<sigma>1 where
    d: "fetchDiscovery env c \<sigma> = Inr (Inr discovery, \<sigma>1)"
    by (auto simp: Verify_def split: sum.splits prod.splits)
  from assms d obtain keySet where
    k: "Fetch (store c) (JWKsURI discovery) (KeySet (jwk_NewSet env)) \<sigma>1
          = Inr (Inr (KeySet keySet), \<sigma>')"
    and r: "(case jwt_Parse env tokenStr keySet (leeway c) (broker c) (clientID c) of
               Inl e \<Rightarrow> False
             | Inr token \<Rightarrow>
                 string_claim (token ''nonce'') = [] \<or> string_claim (token ''email'') = [])"
    by (auto simp: Verify_def Let_def
        split: sum.splits prod.splits payload.splits if_splits option.splits error.splits)
  from r obtain token where
    "jwt_Parse env tokenStr keySet (leeway c) (broker c) (clientID c) = Inr token"
    "string_claim (token ''nonce'') = [] \<or> string_claim (token ''email'') = []"
    by (auto split: sum.splits)
  with d k show ?thesis by blast
qed

text \<open>
  C3. When the discovery document and the key set have been fetched and the token has
  been validated, and its \<open>nonce\<close> or its \<open>email\<close> claim is absent or empty, \<open>Verify\<close>
  returns one of the two missing-claim errors, in the state the two \<open>Fetch\<close> calls
  left: with any other \<open>ConsumeNonce\<close> in the store the outcome is the same, so
  \<open>ConsumeNonce\<close> is not called; and whatever \<open>Fetch\<close> leaves unchanged (the nonces of
  the in-memory store) is unchanged.
\<close>

theorem verify_missing_claim:
  assumes f: "\<And>url dat s r s'. Fetch (store c) url dat s = Inr (r, s') \<Longrightarrow> ns s' = ns s"
    and d: "fetchDiscovery env c \<sigma> = Inr (Inr discovery, \<sigma>1)"
    and k: "Fetch (store c) (JWKsURI discovery) (KeySet (jwk_NewSet env)) \<sigma>1
              = Inr (Inr (KeySet keySet), \<sigma>2)"
    and p: "jwt_Parse env tokenStr keySet (leeway c) (broker c) (clientID c) = Inr token"
    and m: "token ''nonce'' = None \<or> token ''nonce'' = Some (JString []) \<or>
            token ''email'' = None \<or> token ''email'' = Some (JString [])"
  shows "\<exists>msg. (msg = ''nonce claim missing'' \<or> msg = ''email claim missing'') \<and>
           Verify env c tokenStr \<sigma> = Inr (Inl (Error msg), \<sigma>2) \<and>
           ns \<sigma>2 = ns \<sigma> \<and>
           (\<forall>g. Verify env (c\<lparr>store := (store c)\<lparr>ConsumeNonce := g\<rparr>\<rparr>) tokenStr \<sigma>
                  = Inr (Inl (Error msg), \<sigma>2))"
proof -
  let ?msg = "if string_claim (token ''nonce'') = [] then ''nonce claim missing''
              else ''email claim missing''"
  from m have m': "string_claim (token ''nonce'') = [] \<or> string_claim (token ''email'') = []"
    by auto
  have v: "Verify env c tokenStr \<sigma> = Inr (Inl (Error ?msg), \<sigma>2)"
    by (rule Verify_missing [OF d k p m'])
  have "Verify env (c\<lparr>store := (store c)\<lparr>ConsumeNonce := g\<rparr>\<rparr>) tokenStr \<sigma>
          = Inr (Inl (Error ?msg), \<sigma>2)" for g
    by (rule Verify_missing [where discovery = discovery and keySet = keySet and token = token and ?\<sigma>1.0 = \<sigma>1])
       (use d k p m' in \<open>simp_all add: fetchDiscovery_store_ConsumeNonce\<close>)
  moreover from fetchDiscovery_Fetch [OF d] f have "ns \<sigma>1 = ns \<sigma>" by blast
  moreover from f [OF k] have "ns \<sigma>2 = ns \<sigma>1" .
  ultimately show ?thesis using v by (intro exI [of _ ?msg]) auto
qed

theorem verify_missing_claim_witness:
  "Verify env120 client120 ''token-no-nonce'' (example_state {pair_key example_nonce ''user@x.com''})
     = Inr (Inl (Error ''nonce claim missing''),
            example_state_keys {pair_key example_nonce ''user@x.com''}) \<and>
   nonces (fst (example_state_keys {pair_key example_nonce ''user@x.com''}))
     = nonces (fst (example_state {pair_key example_nonce ''user@x.com''}))"
proof -
  let ?token = "[''email'' \<mapsto> JString ''user@x.com'']"
  have p: "jwt_Parse env120 ''token-no-nonce'' ''key-1'' (leeway client120) (broker client120)
             (clientID client120) = Inr ?token"
    by (simp add: example_jwt example_jwt_Parse_def)
  have m: "?token ''nonce'' = None \<or> ?token ''nonce'' = Some (JString []) \<or>
           ?token ''email'' = None \<or> ?token ''email'' = Some (JString [])"
    by simp
  have "\<exists>msg. (msg = ''nonce claim missing'' \<or> msg = ''email claim missing'') \<and>
      Verify env120 client120 ''token-no-nonce'' (example_state {pair_key example_nonce ''user@x.com''})
        = Inr (Inl (Error msg), example_state_keys {pair_key example_nonce ''user@x.com''}) \<and>
      nonces (fst (example_state_keys {pair_key example_nonce ''user@x.com''}))
        = nonces (fst (example_state {pair_key example_nonce ''user@x.com''})) \<and>
      (\<forall>g. Verify env120 (client120\<lparr>store := (store client120)\<lparr>ConsumeNonce := g\<rparr>\<rparr>)
             ''token-no-nonce'' (example_state {pair_key example_nonce ''user@x.com''})
           = Inr (Inl (Error msg), example_state_keys {pair_key example_nonce ''user@x.com''}))"
    by (rule verify_missing_claim [where c = client120 and ns = "\<lambda>s. nonces (fst s)"
          and env = env120, OF _ example_fetchDiscovery example_Fetch_keys_client p m])
       (erule example_Fetch_preserves_nonces)
  then have n: "nonces (fst (example_state_keys {pair_key example_nonce ''user@x.com''}))
          = nonces (fst (example_state {pair_key example_nonce ''user@x.com''}))"
    by blast
  have "Verify env120 client120 ''token-no-nonce'' (example_state {pair_key example_nonce ''user@x.com''})
          = Inr (Inl (Error ''nonce claim missing''),
                 example_state_keys {pair_key example_nonce ''user@x.com''})"
    by (simp add: Verify_def example_fetchDiscovery example_Fetch_keys_client p)
  with n show ?thesis by simp
qed

text \<open>
  C4. When the token has been validated and carries a non-empty \<open>nonce\<close> and \<open>email\<close>,
  \<open>Verify\<close> calls \<open>ConsumeNonce\<close> with the nonce and the \<open>email_original\<close> claim, or with
  the \<open>email\<close> claim when \<open>email_original\<close> is absent, empty or not a string; when
  \<open>ConsumeNonce\<close> returns \<open>nil\<close>, \<open>Verify\<close> returns the \<open>email\<close> claim.
\<close>

theorem verify_consumes_pair:
  assumes d: "fetchDiscovery env c \<sigma> = Inr (Inr discovery, \<sigma>1)"
    and k: "Fetch (store c) (JWKsURI discovery) (KeySet (jwk_NewSet env)) \<sigma>1
              = Inr (Inr (KeySet keySet), \<sigma>2)"
    and p: "jwt_Parse env tokenStr keySet (leeway c) (broker c) (clientID c) = Inr token"
    and n: "token ''nonce'' = Some (JString nonce)" "nonce \<noteq> []"
    and e: "token ''email'' = Some (JString email)" "email \<noteq> []"
  shows "Verify env c tokenStr \<sigma> =
           (case ConsumeNonce (store c) nonce
                   (case token ''email_original'' of
                      Some (JString original) \<Rightarrow> if original = [] then email else original
                    | _ \<Rightarrow> email) \<sigma>2 of
              Inl cr \<Rightarrow> Inl cr
            | Inr (None, \<sigma>3) \<Rightarrow> Inr (Inr email, \<sigma>3)
            | Inr (Some InvalidNonce, \<sigma>3) \<Rightarrow> Inr (Inl (Error ''invalid session''), \<sigma>3)
            | Inr (Some (Error msg), \<sigma>3) \<Rightarrow> Inr (Inl (Error (''ConsumeNonce error: '' @ msg)), \<sigma>3))"
proof -
  have eo: "(let emailOrig = string_claim (token ''email_original'')
             in if emailOrig = [] then email else emailOrig)
          = (case token ''email_original'' of
               Some (JString original) \<Rightarrow> if original = [] then email else original
             | _ \<Rightarrow> email)"
    by (cases "token ''email_original''" rule: string_claim.cases) simp_all
  show ?thesis
    using d k p n e unfolding eo [symmetric]
    by (auto simp: Verify_def Let_def split: sum.splits prod.splits option.splits error.splits)
qed

theorem verify_consumes_pair_witness:
  "Verify env120 client120 ''token-original'' (example_state {pair_key example_nonce ''User@X.com''})
     = Inr (Inr ''user@x.com'', example_state_keys {}) \<and>
   Verify env120 client120 ''token-plain'' (example_state {pair_key example_nonce ''user@x.com''})
     = Inr (Inr ''user@x.com'', example_state_keys {}) \<and>
   Verify env120 client120 ''token-original'' (example_state {pair_key example_nonce ''user@x.com''})
     = Inr (Inl (Error ''invalid session''),
            example_state_keys {pair_key example_nonce ''user@x.com''})"
proof -
  let ?original = "[''nonce'' \<mapsto> JString example_nonce, ''email'' \<mapsto> JString ''user@x.com'',
                   ''email_original'' \<mapsto> JString ''User@X.com'']"
  let ?plain = "[''nonce'' \<mapsto> JString example_nonce, ''email'' \<mapsto> JString ''user@x.com'']"
  have p1: "jwt_Parse env120 ''token-original'' ''key-1'' (leeway client120) (broker client120)
             (clientID client120) = Inr ?original"
    by (simp add: example_jwt example_jwt_Parse_def)
  have p2: "jwt_Parse env120 ''token-plain'' ''key-1'' (leeway client120) (broker client120)
             (clientID client120) = Inr ?plain"
    by (simp add: example_jwt example_jwt_Parse_def)
  have n: "example_nonce \<noteq> []" by (simp add: example_nonce_def)
  have e: "''user@x.com'' \<noteq> []" by simp
  have k: "pair_key example_nonce ''User@X.com'' \<noteq> pair_key example_nonce ''user@x.com''"
    by (simp add: pair_key_def)
  have v1: "Verify env120 client120 ''token-original''
              (example_state {pair_key example_nonce ''User@X.com''})
            = Inr (Inr ''user@x.com'', example_state_keys {})"
    using verify_consumes_pair [OF example_fetchDiscovery example_Fetch_keys_client p1 _ n _ e]
    by (simp add: example_ConsumeNonce memoryStore_ConsumeNonce_def example_state_keys_def)
  have v2: "Verify env120 client120 ''token-plain''
              (example_state {pair_key example_nonce ''user@x.com''})
            = Inr (Inr ''user@x.com'', example_state_keys {})"
    using verify_consumes_pair [OF example_fetchDiscovery example_Fetch_keys_client p2 _ n _ e]
    by (simp add: example_ConsumeNonce memoryStore_ConsumeNonce_def example_state_keys_def)
  have v3: "Verify env120 client120 ''token-original''
              (example_state {pair_key example_nonce ''user@x.com''})
            = Inr (Inl (Error ''invalid session''),
                   example_state_keys {pair_key example_nonce ''user@x.com''})"
    using verify_consumes_pair [OF example_fetchDiscovery example_Fetch_keys_client p1 _ n _ e] k
    by (simp add: example_ConsumeNonce memoryStore_ConsumeNonce_def example_state_keys_def)
  from v1 v2 v3 show ?thesis by simp
qed

text \<open>
  C10. When the token has been validated and its \<open>nonce\<close> or its \<open>email\<close> claim is present
  but is not a string, or is the empty string, \<open>Verify\<close> returns a missing-claim error:
  the same outcome as for the token without that claim, and the same with any other
  \<open>ConsumeNonce\<close> in the store, which is therefore not called.
\<close>

theorem verify_non_string_claim:
  assumes d: "fetchDiscovery env c \<sigma> = Inr (Inr discovery, \<sigma>1)"
    and k: "Fetch (store c) (JWKsURI discovery) (KeySet (jwk_NewSet env)) \<sigma>1
              = Inr (Inr (KeySet keySet), \<sigma>2)"
    and p: "jwt_Parse env tokenStr keySet (leeway c) (broker c) (clientID c) = Inr token"
    and n: "name = ''nonce'' \<or> name = ''email''"
    and v: "token name = Some v" "not_a_string v \<or> v = JString []"
  shows "\<exists>msg. (msg = ''nonce claim missing'' \<or> msg = ''email claim missing'') \<and>
           Verify env c tokenStr \<sigma> = Inr (Inl (Error msg), \<sigma>2) \<and>
           Verify (env\<lparr>jwt_Parse := (\<lambda>_ _ _ _ _. Inr (token(name := None)))\<rparr>) c tokenStr \<sigma>
             = Inr (Inl (Error msg), \<sigma>2) \<and>
           (\<forall>g. Verify env (c\<lparr>store := (store c)\<lparr>ConsumeNonce := g\<rparr>\<rparr>) tokenStr \<sigma>
                  = Inr (Inl (Error msg), \<sigma>2))"
proof -
  let ?msg = "if string_claim (token ''nonce'') = [] then ''nonce claim missing''
              else ''email claim missing''"
  let ?env' = "env\<lparr>jwt_Parse := (\<lambda>_ _ _ _ _. Inr (token(name := None)))\<rparr>"
  from v have sv: "string_claim (token name) = []" by (cases v) auto
  with n have m': "string_claim (token ''nonce'') = [] \<or> string_claim (token ''email'') = []"
    by auto
  have v1: "Verify env c tokenStr \<sigma> = Inr (Inl (Error ?msg), \<sigma>2)"
    by (rule Verify_missing [OF d k p m'])
  have same: "string_claim ((token(name := None)) ''nonce'') = [] \<longleftrightarrow> string_claim (token ''nonce'') = []"
    using sv by auto
  have m2: "string_claim ((token(name := None)) ''nonce'') = [] \<or>
            string_claim ((token(name := None)) ''email'') = []"
    using n sv by auto
  have d': "fetchDiscovery ?env' c \<sigma> = Inr (Inr discovery, \<sigma>1)"
    using d by (simp add: fetchDiscovery_jwt_Parse)
  have k': "Fetch (store c) (JWKsURI discovery) (KeySet (jwk_NewSet ?env')) \<sigma>1
              = Inr (Inr (KeySet keySet), \<sigma>2)"
    using k by simp
  have p': "jwt_Parse ?env' tokenStr keySet (leeway c) (broker c) (clientID c)
              = Inr (token(name := None))"
    by simp
  have "Verify ?env' c tokenStr \<sigma>
          = Inr (Inl (Error (if string_claim ((token(name := None)) ''nonce'') = []
                    then ''nonce claim missing'' else ''email claim missing'')), \<sigma>2)"
    by (rule Verify_missing [OF d' k' p' m2])
  then have v2: "Verify ?env' c tokenStr \<sigma> = Inr (Inl (Error ?msg), \<sigma>2)"
    using same by simp
  have v3: "Verify env (c\<lparr>store := (store c)\<lparr>ConsumeNonce := g\<rparr>\<rparr>) tokenStr \<sigma>
          = Inr (Inl (Error ?msg), \<sigma>2)" for g
    by (rule Verify_missing [where discovery = discovery and keySet = keySet and token = token and ?\<sigma>1.0 = \<sigma>1])
       (use d k p m' in \<open>simp_all add: fetchDiscovery_store_ConsumeNonce\<close>)
  show ?thesis using v1 v2 v3 by (intro exI [of _ ?msg]) auto
qed

theorem verify_non_string_claim_witness:
  "Verify env120 client120 ''token-number-nonce''
       (example_state {pair_key example_nonce ''user@x.com''})
     = Inr (Inl (Error ''nonce claim missing''),
            example_state_keys {pair_key example_nonce ''user@x.com''}) \<and>
   Verify (env120\<lparr>jwt_Parse := (\<lambda>_ _ _ _ _. Inr [''email'' \<mapsto> JString ''user@x.com''])\<rparr>)
       client120 ''token-number-nonce'' (example_state {pair_key example_nonce ''user@x.com''})
     = Inr (Inl (Error ''nonce claim missing''),
            example_state_keys {pair_key example_nonce ''user@x.com''})"
proof -
  let ?token = "[''nonce'' \<mapsto> JNumber 7, ''email'' \<mapsto> JString ''user@x.com'']"
  have p: "jwt_Parse env120 ''token-number-nonce'' ''key-1'' (leeway client120) (broker client120)
             (clientID client120) = Inr ?token"
    by (simp add: example_jwt example_jwt_Parse_def)
  have absent: "?token(''nonce'' := None) = [''email'' \<mapsto> JString ''user@x.com'']"
    by (rule ext) simp
  from verify_non_string_claim [OF example_fetchDiscovery example_Fetch_keys_client p,
      of "''nonce''" "JNumber 7"]
  obtain msg where
    v1: "Verify env120 client120 ''token-number-nonce''
           (example_state {pair_key example_nonce ''user@x.com''})
         = Inr (Inl (Error msg), example_state_keys {pair_key example_nonce ''user@x.com''})" and
    v2: "Verify (env120\<lparr>jwt_Parse := (\<lambda>_ _ _ _ _. Inr (?token(''nonce'' := None)))\<rparr>)
           client120 ''token-number-nonce'' (example_state {pair_key example_nonce ''user@x.com''})
         = Inr (Inl (Error msg), example_state_keys {pair_key example_nonce ''user@x.com''})"
    by auto
  have "Verify env120 client120 ''token-number-nonce''
           (example_state {pair_key example_nonce ''user@x.com''})
         = Inr (Inl (Error ''nonce claim missing''),
                example_state_keys {pair_key example_nonce ''user@x.com''})"
    by (simp add: Verify_def example_fetchDiscovery example_Fetch_keys_client p)
  with v1 v2 show ?thesis unfolding absent by simp
qed

section \<open>\<open>StartAuth\<close> and the client identifier\<close>

lemma StartAuth_query_eq:
  "StartAuth_query c email nonce =
     [(''login_hint'', [email]), (''scope'', [''openid email'']), (''nonce'', [nonce]),
      (''response_type'', [''id_token'']), (''response_mode'', [responseMode c]),
      (''client_id'', [clientID c]), (''redirect_uri'', [redirectURI c])]"
  by (simp add: StartAuth_query_def)





lemma StartAuth_success:
  assumes "StartAuth env c email \<sigma> = Inr (Inr s, \<sigma>')"
  shows "\<exists>discovery \<sigma>1 authURL nonce.
           fetchDiscovery env c \<sigma> = Inr (Inr discovery, \<sigma>1) \<and>
           url_Parse env (AuthorizationEndpoint discovery) = Inr authURL \<and>
           NewNonce (store c) email \<sigma>1 = Inr (Inr nonce, \<sigma>') \<and>
           s = url_String env (authURL\<lparr>RawQuery := Values_Encode (StartAuth_query c email nonce)\<rparr>)"
  using assms
  by (auto simp: StartAuth_def Let_def split: sum.splits prod.splits)






lemma NewClient_success:
  assumes "NewClient env mem cfg = Inr c"
  shows "\<exists>brokerURL' redirectURL.
           RedirectURI cfg \<noteq> [] \<and>
           url_Parse env (if Broker cfg = [] then DefaultBroker else Broker cfg) = Inr brokerURL' \<and>
           isOrigin brokerURL' \<and>
           url_Parse env (RedirectURI cfg) = Inr redirectURL \<and> IsAbs redirectURL \<and>
           c = \<lparr>store = (case Store cfg of None \<Rightarrow> mem | Some s \<Rightarrow> s),
                broker = (if Broker cfg = [] then DefaultBroker else Broker cfg),
                brokerURL = brokerURL', redirectURI = RedirectURI cfg,
                clientID = originOf redirectURL,
                responseMode = (if ResponseMode cfg = [] then ResponseModeFormPost else ResponseMode cfg),
                leeway = (if Leeway cfg = 0 then DefaultLeeway else Leeway cfg)\<rparr>"
  using assms
  by (auto simp: NewClient_def Let_def split: if_splits sum.splits)

lemma Verify_audience:
  assumes "\<And>t k l i. P t k l i (clientID c) = jwt_Parse env t k l i (clientID c)"
  shows "Verify (env\<lparr>jwt_Parse := P\<rparr>) c tokenStr \<sigma> = Verify env c tokenStr \<sigma>"
  using assms
  by (simp add: Verify_def fetchDiscovery_jwt_Parse
      cong: sum.case_cong prod.case_cong payload.case_cong)

lemma fetchDiscovery_client_identity:
  "fetchDiscovery env (c\<lparr>redirectURI := r, clientID := i\<rparr>) \<sigma> = fetchDiscovery env c \<sigma>"
  by (simp add: fetchDiscovery_def)

lemma Verify_rejected:
  assumes "fetchDiscovery env c \<sigma> = Inr (Inr discovery, \<sigma>1)"
    and "Fetch (store c) (JWKsURI discovery) (KeySet (jwk_NewSet env)) \<sigma>1
           = Inr (Inr (KeySet keySet), \<sigma>2)"
    and "jwt_Parse env tokenStr keySet (leeway c) (broker c) (clientID c) = Inl e"
  shows "Verify env c tokenStr \<sigma> = Inr (Inl (Error (''jwt.Parse error: '' @ Error_msg e)), \<sigma>2)"
  using assms by (simp add: Verify_def)

lemma Verify_accepted:
  assumes "Verify env c tokenStr \<sigma> = Inr (Inr s, \<sigma>')"
  shows "\<exists>discovery \<sigma>1 keySet \<sigma>2 token.
           fetchDiscovery env c \<sigma> = Inr (Inr discovery, \<sigma>1) \<and>
           Fetch (store c) (JWKsURI discovery) (KeySet (jwk_NewSet env)) \<sigma>1
             = Inr (Inr (KeySet keySet), \<sigma>2) \<and>
           jwt_Parse env tokenStr keySet (leeway c) (broker c) (clientID c) = Inr token"
  using assms
  by (auto simp: Verify_def Let_def
      split: sum.splits prod.splits payload.splits if_splits option.splits error.splits)

text \<open>
  C9 (as amended). Whenever \<open>NewClient\<close> returns a client, the redirect URI has parsed to
  a URL with a scheme, and the client identifier is \<open>scheme://host\<close> of that URL when its
  opaque part is empty, and \<open>scheme:opaque\<close> otherwise. Every URL that \<open>StartAuth\<close>
  returns carries this identifier as \<open>client_id\<close>. \<open>Verify\<close> asks \<open>jwt.Parse\<close> for this
  audience and no other: its outcome is the same for any \<open>jwt.Parse\<close> that agrees on this
  audience; when \<open>jwt.Parse\<close> with this audience rejects the token, \<open>Verify\<close> returns the
  \<open>jwt.Parse\<close> error; and \<open>Verify\<close> returns an email only when \<open>jwt.Parse\<close> with this
  audience has accepted the token.
\<close>

theorem newClient_clientID:
  assumes "NewClient env mem cfg = Inr c"
  shows "\<exists>redirectURL.
           url_Parse env (RedirectURI cfg) = Inr redirectURL \<and> Scheme redirectURL \<noteq> [] \<and>
           clientID c = (if Opaque redirectURL \<noteq> []
                         then Scheme redirectURL @ '':'' @ Opaque redirectURL
                         else Scheme redirectURL @ ''://'' @ Host redirectURL) \<and>
           (\<forall>email \<sigma> s \<sigma>'. StartAuth env c email \<sigma> = Inr (Inr s, \<sigma>') \<longrightarrow>
              (\<exists>authURL nonce.
                 s = url_String env (authURL\<lparr>RawQuery := Values_Encode (StartAuth_query c email nonce)\<rparr>) \<and>
                 map_of (StartAuth_query c email nonce) ''client_id'' = Some [clientID c])) \<and>
           (\<forall>P tokenStr \<sigma>.
              (\<forall>t k l i. P t k l i (clientID c) = jwt_Parse env t k l i (clientID c)) \<longrightarrow>
              Verify (env\<lparr>jwt_Parse := P\<rparr>) c tokenStr \<sigma> = Verify env c tokenStr \<sigma>) \<and>
           (\<forall>tokenStr \<sigma> discovery \<sigma>1 keySet \<sigma>2 e.
              fetchDiscovery env c \<sigma> = Inr (Inr discovery, \<sigma>1) \<and>
              Fetch (store c) (JWKsURI discovery) (KeySet (jwk_NewSet env)) \<sigma>1
                = Inr (Inr (KeySet keySet), \<sigma>2) \<and>
              jwt_Parse env tokenStr keySet (leeway c) (broker c) (clientID c) = Inl e \<longrightarrow>
              Verify env c tokenStr \<sigma>
                = Inr (Inl (Error (''jwt.Parse error: '' @ Error_msg e)), \<sigma>2)) \<and>
           (\<forall>tokenStr \<sigma> s \<sigma>'. Verify env c tokenStr \<sigma> = Inr (Inr s, \<sigma>') \<longrightarrow>
              (\<exists>discovery \<sigma>1 keySet \<sigma>2 token.
                 fetchDiscovery env c \<sigma> = Inr (Inr discovery, \<sigma>1) \<and>
                 Fetch (store c) (JWKsURI discovery) (KeySet (jwk_NewSet env)) \<sigma>1
                   = Inr (Inr (KeySet keySet), \<sigma>2) \<and>
                 jwt_Parse env tokenStr keySet (leeway c) (broker c) (clientID c) = Inr token))"
proof -
  from NewClient_success [OF assms] obtain redirectURL where
    u: "url_Parse env (RedirectURI cfg) = Inr redirectURL" "IsAbs redirectURL"
    and c: "clientID c = originOf redirectURL"
    by auto
  have a: "\<exists>authURL nonce.
          s = url_String env (authURL\<lparr>RawQuery := Values_Encode (StartAuth_query c email nonce)\<rparr>) \<and>
          map_of (StartAuth_query c email nonce) ''client_id'' = Some [clientID c]"
    if "StartAuth env c email \<sigma> = Inr (Inr s, \<sigma>')" for email \<sigma> s \<sigma>'
    using StartAuth_success [OF that] by (auto simp: StartAuth_query_eq)
  have b: "Verify (env\<lparr>jwt_Parse := P\<rparr>) c tokenStr \<sigma> = Verify env c tokenStr \<sigma>"
    if "\<forall>t k l i. P t k l i (clientID c) = jwt_Parse env t k l i (clientID c)" for P tokenStr \<sigma>
    using that by (intro Verify_audience) simp
  have r: "Verify env c tokenStr \<sigma> = Inr (Inl (Error (''jwt.Parse error: '' @ Error_msg e)), \<sigma>2)"
    if "fetchDiscovery env c \<sigma> = Inr (Inr discovery, \<sigma>1) \<and>
        Fetch (store c) (JWKsURI discovery) (KeySet (jwk_NewSet env)) \<sigma>1
          = Inr (Inr (KeySet keySet), \<sigma>2) \<and>
        jwt_Parse env tokenStr keySet (leeway c) (broker c) (clientID c) = Inl e"
    for tokenStr \<sigma> discovery \<sigma>1 keySet \<sigma>2 e
    using Verify_rejected [of env c \<sigma> discovery \<sigma>1 keySet \<sigma>2 tokenStr e] that by simp
  have v: "\<exists>discovery \<sigma>1 keySet \<sigma>2 token.
          fetchDiscovery env c \<sigma> = Inr (Inr discovery, \<sigma>1) \<and>
          Fetch (store c) (JWKsURI discovery) (KeySet (jwk_NewSet env)) \<sigma>1
            = Inr (Inr (KeySet keySet), \<sigma>2) \<and>
          jwt_Parse env tokenStr keySet (leeway c) (broker c) (clientID c) = Inr token"
    if "Verify env c tokenStr \<sigma> = Inr (Inr s, \<sigma>')" for tokenStr \<sigma> s \<sigma>'
    using that by (rule Verify_accepted)
  have o: "Scheme redirectURL \<noteq> []"
    "clientID c = (if Opaque redirectURL \<noteq> []
                   then Scheme redirectURL @ '':'' @ Opaque redirectURL
                   else Scheme redirectURL @ ''://'' @ Host redirectURL)"
    using u(2) c by (simp_all add: originOf_def IsAbs_def)
  show ?thesis
    using u(1) o a b r v by (intro exI [of _ redirectURL]) blast
qed

theorem newClient_clientID_witness:
  "NewClient env120 (NewMemoryStore env120)
       \<lparr>Store = None, Broker = ''https://idp.example'',
        RedirectURI = ''https://app.example/callback/path'', ResponseMode = [], Leeway = 0\<rparr>
     = Inr client120 \<and>
   clientID client120 = ''https://app.example'' \<and>
   Verify env120 client120 ''token-forged'' (example_state {})
     = Inr (Inl (Error ''jwt.Parse error: invalid JWT''), example_state_keys {}) \<and>
   NewClient env120 (NewMemoryStore env120)
       \<lparr>Store = None, Broker = ''https://idp.example'',
        RedirectURI = ''https://idp.example/auth'', ResponseMode = [], Leeway = 0\<rparr>
     = Inr (client120\<lparr>redirectURI := ''https://idp.example/auth'',
                      clientID := ''https://idp.example''\<rparr>) \<and>
   Verify env120 (client120\<lparr>redirectURI := ''https://idp.example/auth'',
                            clientID := ''https://idp.example''\<rparr>)
       ''token-plain'' (example_state {})
     = Inr (Inl (Error ''jwt.Parse error: could not verify message''), example_state_keys {})"
proof -
  let ?c2 = "client120\<lparr>redirectURI := ''https://idp.example/auth'',
                        clientID := ''https://idp.example''\<rparr>"
  have c: "NewClient env120 (NewMemoryStore env120)
       \<lparr>Store = None, Broker = ''https://idp.example'',
        RedirectURI = ''https://app.example/callback/path'', ResponseMode = [], Leeway = 0\<rparr>
     = Inr client120"
    by (simp add: NewClient_def Let_def example_env_def example_url_Parse_def example_URL_def
        isOrigin_def IsAbs_def originOf_def example_client_def ResponseModeFormPost_def
        ResponseModeFragment_def)
  have c2: "NewClient env120 (NewMemoryStore env120)
       \<lparr>Store = None, Broker = ''https://idp.example'',
        RedirectURI = ''https://idp.example/auth'', ResponseMode = [], Leeway = 0\<rparr>
     = Inr ?c2"
    by (simp add: NewClient_def Let_def example_env_def example_url_Parse_def example_URL_def
        isOrigin_def IsAbs_def originOf_def example_client_def ResponseModeFormPost_def
        ResponseModeFragment_def)
  have i: "clientID client120 = ''https://app.example''"
    by (simp add: example_client_def)
  have p1: "jwt_Parse env120 ''token-forged'' ''key-1'' (leeway client120) (broker client120)
              (clientID client120) = Inl (Error ''invalid JWT'')"
    by (simp add: example_jwt example_jwt_Parse_def)
  have d2: "fetchDiscovery env120 ?c2 (example_state {})
              = Inr (Inr example_discovery, example_state_discovery {})"
    by (simp only: fetchDiscovery_client_identity example_fetchDiscovery)
  have k2: "Fetch (store ?c2) (JWKsURI example_discovery) (KeySet (jwk_NewSet env120))
              (example_state_discovery {})
            = Inr (Inr (KeySet ''key-1''), example_state_keys {})"
    using example_Fetch_keys_client [of "{}"] by simp
  have p2: "jwt_Parse env120 ''token-plain'' ''key-1'' (leeway ?c2) (broker ?c2) (clientID ?c2)
              = Inl (Error ''could not verify message'')"
    by (simp add: example_env_def example_client_def example_jwt_Parse_def)
  from newClient_clientID [OF c] have
    "\<forall>tokenStr \<sigma> discovery \<sigma>1 keySet \<sigma>2 e.
        fetchDiscovery env120 client120 \<sigma> = Inr (Inr discovery, \<sigma>1) \<and>
        Fetch (store client120) (JWKsURI discovery) (KeySet (jwk_NewSet env120)) \<sigma>1
          = Inr (Inr (KeySet keySet), \<sigma>2) \<and>
        jwt_Parse env120 tokenStr keySet (leeway client120) (broker client120)
          (clientID client120) = Inl e \<longrightarrow>
        Verify env120 client120 tokenStr \<sigma>
          = Inr (Inl (Error (''jwt.Parse error: '' @ Error_msg e)), \<sigma>2)"
    by blast
  with example_fetchDiscovery [of "{}"] example_Fetch_keys_client [of "{}"] p1
  have v1: "Verify env120 client120 ''token-forged'' (example_state {})
      = Inr (Inl (Error (''jwt.Parse error: '' @ Error_msg (Error ''invalid JWT''))),
             example_state_keys {})"
    by blast
  from newClient_clientID [OF c2] have
    "\<forall>tokenStr \<sigma> discovery \<sigma>1 keySet \<sigma>2 e.
        fetchDiscovery env120 ?c2 \<sigma> = Inr (Inr discovery, \<sigma>1) \<and>
        Fetch (store ?c2) (JWKsURI discovery) (KeySet (jwk_NewSet env120)) \<sigma>1
          = Inr (Inr (KeySet keySet), \<sigma>2) \<and>
        jwt_Parse env120 tokenStr keySet (leeway ?c2) (broker ?c2) (clientID ?c2) = Inl e \<longrightarrow>
        Verify env120 ?c2 tokenStr \<sigma>
          = Inr (Inl (Error (''jwt.Parse error: '' @ Error_msg e)), \<sigma>2)"
    by blast
  with d2 k2 p2
  have v2: "Verify env120 ?c2 ''token-plain'' (example_state {})
      = Inr (Inl (Error (''jwt.Parse error: '' @ Error_msg (Error ''could not verify message''))),
             example_state_keys {})"
    by blast
  from c c2 i v1 v2 show ?thesis by simp
qed

text \<open>
  C9 as stated fails: \<open>mailto:user@example.com\<close> is an absolute URL (its scheme is
  \<open>mailto\<close>, its opaque part \<open>user@example.com\<close>, its host empty); \<open>NewClient\<close> accepts it
  as redirect URI and the client identifier is \<open>mailto:user@example.com\<close>, which is not
  its scheme and host, \<open>mailto://\<close>.
\<close>

theorem newClient_opaque_counterexample:
  "url_Parse env120 ''mailto:user@example.com''
     = Inr (example_URL ''mailto'' ''user@example.com'' [] []) \<and>
   IsAbs (example_URL ''mailto'' ''user@example.com'' [] []) \<and>
   NewClient env120 (NewMemoryStore env120)
       \<lparr>Store = None, Broker = ''https://idp.example'',
        RedirectURI = ''mailto:user@example.com'', ResponseMode = [], Leeway = 0\<rparr>
     = Inr (client120\<lparr>redirectURI := ''mailto:user@example.com'',
                      clientID := ''mailto:user@example.com''\<rparr>) \<and>
   ''mailto:user@example.com''
     \<noteq> Scheme (example_URL ''mailto'' ''user@example.com'' [] []) @ ''://'' @
       Host (example_URL ''mailto'' ''user@example.com'' [] [])"
  by (simp add: NewClient_def Let_def example_env_def example_url_Parse_def example_URL_def
      isOrigin_def IsAbs_def originOf_def example_client_def ResponseModeFormPost_def
      ResponseModeFragment_def)

end
